theory Spec2Isabelle
  imports Main "HOL-Library.AList" "HOL-Library.FSet"
begin

section \<open>The IPAM reconciliation controller of kube-controllers (pkg/controllers/node/ipam.go)\<close>

text \<open>
  A shallow embedding of \<^verbatim>\<open>ipam.go\<close>. The controller is single threaded: every function
  of the source that mutates the receiver \<^verbatim>\<open>c *IPAMController\<close> becomes a function from the
  controller record to the updated record. Go maps that the source iterates over are
  association lists (the order of the list stands for the unspecified order of \<^verbatim>\<open>range\<close>);
  maps that are only looked up are partial functions. Allocations are shared by pointer
  between several indexes, so they live in an explicit heap and the indexes hold addresses.
  The Kubernetes and IPAM clients are outside the program: their answers are the fields of
  an environment record.
\<close>

subsection \<open>Durations and errors\<close>

text \<open>\<^verbatim>\<open>time.Duration\<close> and \<^verbatim>\<open>time.Time\<close> count nanoseconds (int64 in the source).\<close>

type_synonym duration = int
type_synonym time = int

definition Second :: duration where
  "Second = 1000000000"

definition Minute :: duration where
  "Minute = 60 * Second"

text \<open>
  The error values the source tells apart: \<^verbatim>\<open>cerrors.ErrorResourceDoesNotExist\<close>,
  the package's own \<^verbatim>\<open>*ErrorNotKubernetes\<close>, the Kubernetes not-found status tested
  by \<^verbatim>\<open>errors.IsNotFound\<close>, every other error, and an error made by
  \<^verbatim>\<open>fmt.Errorf\<close> with \<^verbatim>\<open>%w\<close>: its message and the error it wraps.
\<close>

datatype error =
    ErrorResourceDoesNotExist
  | ErrorNotKubernetes
  | ErrorNotFound
  | ErrorOther string
  | ErrorWrapped string error

subsection \<open>Configuration and the period of the ticker\<close>

record nodeControllerConfig =
  LeakGracePeriod :: "duration option"

text \<open>
  The first lines of \<^verbatim>\<open>acceptScheduleRequests\<close>: the local variable \<^verbatim>\<open>period\<close>. The
  grace period is positive in the only branch that divides, so Go's truncating division
  and \<open>div\<close> agree.
\<close>

definition acceptScheduleRequests_period :: "nodeControllerConfig \<Rightarrow> duration" where
  "acceptScheduleRequests_period cfg =
     (case LeakGracePeriod cfg of
        None \<Rightarrow> 5 * Minute
      | Some d \<Rightarrow> if d > 0 then d div 2 else 5 * Minute)"

text \<open>
  \<^verbatim>\<open>time.NewTicker(d)\<close> of the Go standard library panics when \<^verbatim>\<open>d\<close> is not positive
  and otherwise returns a ticker that fires every \<^verbatim>\<open>d\<close>. The result is the period of
  the ticker, or \<open>None\<close> for the panic.
\<close>

definition NewTicker :: "duration \<Rightarrow> duration option" where
  "NewTicker d = (if d \<le> 0 then None else Some d)"

text \<open>
  The ticker that \<^verbatim>\<open>acceptScheduleRequests\<close> creates before it enters its loop:
  \<^verbatim>\<open>t := time.NewTicker(period)\<close>. With \<open>None\<close> the goroutine has panicked and the loop
  is never entered.
\<close>

definition acceptScheduleRequests_ticker :: "nodeControllerConfig \<Rightarrow> duration option" where
  "acceptScheduleRequests_ticker cfg = NewTicker (acceptScheduleRequests_period cfg)"

subsection \<open>Allocations\<close>

text \<open>
  The struct \<^verbatim>\<open>allocation\<close> is declared outside \<^verbatim>\<open>ipam.go\<close>; its fields
  \<^verbatim>\<open>ip, handle, attrs, sequenceNumber, block\<close> are those of the literal in
  \<^verbatim>\<open>onBlockUpdated\<close> and \<^verbatim>\<open>knode\<close> is assigned in \<^verbatim>\<open>checkAllocations\<close>.
  Modelled from the spec: the leak state of an allocation is one of Valid, Candidate
  (with the time of the transition) and Confirmed.
\<close>

datatype leakState = Valid | Candidate time | Confirmed

record allocation =
  ip :: string
  handle :: string
  attrs :: "string \<rightharpoonup> string"
  sequenceNumber :: nat
  block :: string
  knode :: string
  leak :: leakState

text \<open>Reading a Go \<^verbatim>\<open>map[string]string\<close> at a missing key gives the empty string.\<close>

definition attr :: "allocation \<Rightarrow> string \<Rightarrow> string" where
  "attr a k = (case attrs a k of None \<Rightarrow> [] | Some v \<Rightarrow> v)"

text \<open>
  Modelled from the spec: the attribute keys of package \<^verbatim>\<open>ipam\<close> (namespace, pod, node
  and type), which \<^verbatim>\<open>ipam.go\<close> names but does not declare.
\<close>

definition AttributeNamespace :: string where
  "AttributeNamespace = ''namespace''"

definition AttributePod :: string where
  "AttributePod = ''pod''"

definition AttributeNode :: string where
  "AttributeNode = ''node''"

definition AttributeType :: string where
  "AttributeType = ''type''"

text \<open>
  Modelled from the spec: the methods of \<^verbatim>\<open>allocation\<close>. The unique id is an injective
  combination of handle, sequence number, block and address; the node comes from the
  secondary attributes; \<^verbatim>\<open>type=tunnel\<close> marks a tunnel address; pod and namespace
  together mark a pod address.
\<close>

type_synonym allocId = "string \<times> nat \<times> string \<times> string"

definition id_of :: "allocation \<Rightarrow> allocId" where
  "id_of a = (handle a, sequenceNumber a, block a, ip a)"

definition node :: "allocation \<Rightarrow> string" where
  "node a = attr a AttributeNode"

definition isTunnelAddress :: "allocation \<Rightarrow> bool" where
  "isTunnelAddress a = (attr a AttributeType = ''tunnel'')"

definition isPodIP :: "allocation \<Rightarrow> bool" where
  "isPodIP a = (attr a AttributeNamespace \<noteq> [] \<and> attr a AttributePod \<noteq> [])"

definition isConfirmedLeak :: "allocation \<Rightarrow> bool" where
  "isConfirmedLeak a = (leak a = Confirmed)"

definition isCandidateLeak :: "allocation \<Rightarrow> bool" where
  "isCandidateLeak a = (case leak a of Candidate t \<Rightarrow> True | _ \<Rightarrow> False)"

definition markValid :: "allocation \<Rightarrow> allocation" where
  "markValid a = a\<lparr>leak := Valid\<rparr>"

definition markConfirmedLeak :: "allocation \<Rightarrow> allocation" where
  "markConfirmedLeak a = a\<lparr>leak := Confirmed\<rparr>"

text \<open>
  Modelled from the spec: \<^verbatim>\<open>markLeak(grace)\<close> makes the allocation a candidate at the
  current time unless it already is one; a candidate is promoted once the grace period
  has elapsed. The spec's transition table has no edge from Confirmed back to Candidate.
\<close>

definition markLeak :: "time \<Rightarrow> duration \<Rightarrow> allocation \<Rightarrow> allocation" where
  "markLeak now grace a =
     (case leak a of
        Valid \<Rightarrow> a\<lparr>leak := Candidate now\<rparr>
      | Candidate t0 \<Rightarrow> if now - t0 \<ge> grace then a\<lparr>leak := Confirmed\<rparr> else a
      | Confirmed \<Rightarrow> a)"

text \<open>
  Modelled from the spec: \<^verbatim>\<open>ReleaseOptions()\<close> carries the address, the handle and the
  sequence number of the allocation.
\<close>

record releaseOptions =
  Address :: string
  Handle :: string
  SequenceNumber :: nat

definition ReleaseOptions :: "allocation \<Rightarrow> releaseOptions" where
  "ReleaseOptions a = \<lparr>Address = ip a, Handle = handle a, SequenceNumber = sequenceNumber a\<rparr>"

subsection \<open>The environment: Kubernetes, the datastore client and the clock\<close>

text \<open>The fields of \<^verbatim>\<open>v1.Pod\<close> that \<^verbatim>\<open>allocationIsValid\<close> reads.\<close>

record pod =
  podSpecNodeName :: string
  podStatusPodIP :: string
  podStatusPodIPs :: "string list"
  podStatusPhase :: string
  podStatusReason :: string

definition PodFailed :: string where
  "PodFailed = ''Failed''"

text \<open>
  A Calico node as far as the controller looks at it: its name and what
  \<^verbatim>\<open>getK8sNodeName\<close> (declared outside \<^verbatim>\<open>ipam.go\<close>) returns for it, the Kubernetes
  node name or an error. A Kubernetes node is its labels.
\<close>

record calicoNode =
  calicoNodeName :: string
  getK8sNodeName :: "error + string"

record k8sNode =
  nodeLabels :: "(string \<times> string) list"

text \<open>
  Every call that leaves the process is a field. A parsed address is a number, equal for
  two texts exactly when \<^verbatim>\<open>net.IP.Equal\<close> holds of them; a workload endpoint is the list
  of its \<^verbatim>\<open>Spec.IPNetworks\<close>, and \<open>None\<close> in the list returned by the converter is a nil
  entry.
\<close>

record env =
  podLister_Get :: "string \<Rightarrow> string \<Rightarrow> error + pod"
  clientset_Pods_Get :: "string \<Rightarrow> string \<Rightarrow> error + pod"
  PodToWorkloadEndpoints :: "pod \<Rightarrow> error + string list option list"
  ParseCIDR :: "string \<Rightarrow> nat option"
  ParseIP :: "string \<Rightarrow> nat option"
  nodeLister_Get :: "string \<Rightarrow> error + k8sNode"
  client_Nodes_Get :: "string \<Rightarrow> error + calicoNode"
  IPAM_ReleaseIPs :: "releaseOptions list \<Rightarrow> releaseOptions list \<times> error option"
  IPAM_ReleaseBlockAffinity :: "string \<Rightarrow> error option"
  IPAM_ReleaseHostAffinities :: "string \<Rightarrow> error option"
  NodeNetworkCalico :: "(string \<times> string) list"
  poolContains :: "string \<Rightarrow> string \<Rightarrow> bool"
  isWindowsReserved :: "allocation \<Rightarrow> bool"
  now :: time

subsection \<open>allocationIsValid\<close>

text \<open>
  The inner loop over \<^verbatim>\<open>wep.Spec.IPNetworks\<close>: \<open>Some b\<close> when the loop returns \<open>b\<close>
  from the function, \<open>None\<close> when it runs to its end.
\<close>

fun scanIPNetworks :: "env \<Rightarrow> allocation \<Rightarrow> string list \<Rightarrow> bool option" where
  "scanIPNetworks e a [] = None"
| "scanIPNetworks e a (nw # nws) =
     (case ParseCIDR e nw of
        None \<Rightarrow> Some True
      | Some ipn \<Rightarrow>
          (case ParseIP e (ip a) of
             None \<Rightarrow> Some True
           | Some allocIP \<Rightarrow>
               if allocIP = ipn then Some True else scanIPNetworks e a nws))"

text \<open>The outer loop over the converted endpoints, and the final \<^verbatim>\<open>return false\<close>.\<close>

fun scanEndpoints :: "env \<Rightarrow> allocation \<Rightarrow> string list option list \<Rightarrow> bool" where
  "scanEndpoints e a [] = False"
| "scanEndpoints e a (None # kvps) = scanEndpoints e a kvps"
| "scanEndpoints e a (Some nws # kvps) =
     (case scanIPNetworks e a nws of
        Some b \<Rightarrow> b
      | None \<Rightarrow> scanEndpoints e a kvps)"

definition getPod :: "env \<Rightarrow> bool \<Rightarrow> string \<Rightarrow> string \<Rightarrow> error + pod" where
  "getPod e preferCache ns p =
     (if preferCache then podLister_Get e ns p else clientset_Pods_Get e ns p)"

definition allocationIsValid :: "env \<Rightarrow> allocation \<Rightarrow> bool \<Rightarrow> bool" where
  "allocationIsValid e a preferCache =
     (let ns = attr a AttributeNamespace; pd = attr a AttributePod in
      if isTunnelAddress a then knode a \<noteq> []
      else if ns = [] \<or> pd = [] then True
      else
        (case getPod e preferCache ns pd of
           Inl err \<Rightarrow> if err \<noteq> ErrorNotFound then True else False
         | Inr p \<Rightarrow>
             if podSpecNodeName p \<noteq> [] \<and> knode a \<noteq> [] \<and> podSpecNodeName p \<noteq> knode a
             then False
             else if podStatusPodIP p = [] \<or> length (podStatusPodIPs p) = 0 then True
             else if podStatusPhase p = PodFailed \<and> podStatusReason p = ''Evicted'' then False
             else
               (case PodToWorkloadEndpoints e p of
                  Inl err \<Rightarrow> True
                | Inr kvps \<Rightarrow> scanEndpoints e a kvps)))"

subsection \<open>Blocks and syncer updates\<close>

text \<open>
  The fields of \<^verbatim>\<open>model.AllocationBlock\<close> that \<^verbatim>\<open>onBlockUpdated\<close> reads. The two
  methods \<^verbatim>\<open>OrdinalToIP\<close> and \<^verbatim>\<open>GetSequenceNumberForOrdinal\<close> belong to the datastore
  model and travel with the block.
\<close>

record allocationAttribute =
  AttrPrimary :: "string option"
  AttrSecondary :: "string \<rightharpoonup> string"

record allocationBlock =
  Affinity :: "string option"
  Allocations :: "int option list"
  Attributes :: "allocationAttribute list"
  OrdinalToIP :: "nat \<Rightarrow> string"
  GetSequenceNumberForOrdinal :: "nat \<Rightarrow> nat"

record ipPool =
  poolName :: string
  poolCIDR :: string

record clusterInformation =
  DatastoreReady :: "bool option"

text \<open>
  \<^verbatim>\<open>model.KVPair\<close>: a dynamically typed key and value; a nil value is a deletion.
  \<^verbatim>\<open>bapi.SyncStatus\<close> starts at its zero value, which is not \<^verbatim>\<open>InSync\<close>.
\<close>

datatype resourceKind = KindNode | KindIPPool | KindClusterInformation | KindOther

datatype kvKey = ResourceKey resourceKind string | BlockKey string | OtherKey

datatype kvValue =
    NodeValue calicoNode
  | IPPoolValue ipPool
  | ClusterInformationValue clusterInformation
  | BlockValue allocationBlock

record kvPair =
  Key :: kvKey
  Value :: "kvValue option"

datatype syncStatus = WaitForDatastore | ResyncInProgress | InSync

datatype update = SyncStatusUpdate syncStatus | KVPairUpdate kvPair | OtherUpdate

subsection \<open>The controller's components\<close>

text \<open>
  Modelled from the spec: the allocation state keeps, for each node, the allocations on
  it by id, and the nodes that are dirty.
\<close>

type_synonym allocIndex = "(allocId \<times> nat) list"

record allocationState =
  allocationsByNode :: "(string \<times> allocIndex) list"
  dirtyNodes :: "string list"

text \<open>Modelled from the spec: the handle tracker indexes the allocations of each handle.\<close>

record handleTracker =
  allocationsByHandle :: "string \<Rightarrow> allocIndex"

text \<open>
  Modelled from the spec: the block release tracker remembers since when a block has been
  empty; the grace period is fixed when the controller is built.
\<close>

datatype blockState = InUse | EmptySince time

record blockReleaseTracker =
  gracePeriod :: "duration option"
  blockStates :: "string \<rightharpoonup> blockState"

text \<open>
  Modelled from the spec: the pool manager. The three maps are named in \<^verbatim>\<open>ipam.go\<close>.
\<close>

record poolManager =
  allPools :: "(string \<times> ipPool) list"
  blocksByPool :: "string \<Rightarrow> string fset"
  poolsByBlock :: "string \<rightharpoonup> string"

text \<open>
  Modelled from the spec: the retry controller has at most one retry pending and a backoff
  that grows with the failures since the last success.
\<close>

record retryController =
  retryPending :: bool
  retryFailures :: nat

text \<open>The calls made on the IPAM client, in order.\<close>

datatype ipamCall =
    ReleaseIPsCall "releaseOptions list"
  | ReleaseBlockAffinityCall string
  | ReleaseHostAffinitiesCall string

text \<open>
  \<^verbatim>\<open>IPAMController\<close>. An absent key of \<^verbatim>\<open>allocationsByBlock\<close>, \<^verbatim>\<open>blocksByNode\<close> and
  of the handle tracker reads as the empty inner map, as a nil map does in Go.
  \<^verbatim>\<open>allBlocks\<close> keeps the block of each stored pair: its only writer,
  \<^verbatim>\<open>onBlockUpdated\<close>, has asserted the value to be a block. \<^verbatim>\<open>syncChan\<close> has capacity
  one: it holds a kick or it does not. \<^verbatim>\<open>gcReclamationCounters\<close> is the package-level
  map of counter vectors, by pool and then by node label; the gauge vectors are registered
  and unregistered together with it and are not modelled. \<^verbatim>\<open>ipamCalls\<close> records the
  calls made on the IPAM client, and \<^verbatim>\<open>crashed\<close> is set when the process has ended in
  a runtime panic or \<^verbatim>\<open>log.Fatalf\<close>.
\<close>

record controller =
  config :: nodeControllerConfig
  syncStatus_of :: syncStatus
  kubernetesNodesByCalicoName :: "string \<rightharpoonup> string"
  syncChan :: bool
  allBlocks :: "string \<rightharpoonup> allocationBlock"
  heap :: "nat \<Rightarrow> allocation"
  nextPtr :: nat
  allocState :: allocationState
  allocationsByBlock :: "string \<Rightarrow> allocIndex"
  handles :: handleTracker
  confirmedLeaks :: allocIndex
  nodesByBlock :: "(string \<times> string) list"
  blocksByNode :: "string \<Rightarrow> string fset"
  releaseTracker :: blockReleaseTracker
  emptyBlocks :: "(string \<times> string) list"
  pools :: poolManager
  datastoreReady :: bool
  fullSyncRequired :: bool
  retries :: retryController
  gcReclamationCounters :: "string \<rightharpoonup> (string \<Rightarrow> nat)"
  ipamCalls :: "ipamCall list"
  crashed :: bool

definition unknownNodeLabel :: string where
  "unknownNodeLabel = ''unknown_node''"

text \<open>
  Modelled from the spec: the label of the pool of a block that no known pool contains is
  the empty string.
\<close>

definition unknownPoolLabel :: string where
  "unknownPoolLabel = []"

definition lookupD :: "'v \<Rightarrow> ('k \<times> 'v) list \<Rightarrow> 'k \<Rightarrow> 'v" where
  "lookupD d m k = (case map_of m k of None \<Rightarrow> d | Some v \<Rightarrow> v)"

text \<open>
  Modelled from the spec: \<^verbatim>\<open>kick\<close> puts a kick into the channel unless one is there.
\<close>

definition kick :: "controller \<Rightarrow> controller" where
  "kick c = c\<lparr>syncChan := True\<rparr>"

text \<open>Modelled from the spec: the operations of the allocation state.\<close>

definition markDirty :: "string \<Rightarrow> allocationState \<Rightarrow> allocationState" where
  "markDirty n st = st\<lparr>dirtyNodes := List.insert n (dirtyNodes st)\<rparr>"

definition allocate :: "allocation \<Rightarrow> nat \<Rightarrow> allocationState \<Rightarrow> allocationState" where
  "allocate a p st =
     markDirty (node a)
       (st\<lparr>allocationsByNode :=
             AList.update (node a)
               (AList.update (id_of a) p (lookupD [] (allocationsByNode st) (node a)))
               (allocationsByNode st)\<rparr>)"

definition release :: "allocation \<Rightarrow> allocationState \<Rightarrow> allocationState" where
  "release a st =
     markDirty (node a)
       (st\<lparr>allocationsByNode :=
             AList.map_entry (node a) (AList.delete (id_of a)) (allocationsByNode st)\<rparr>)"

definition markDirtyPodDeleted :: "pod \<Rightarrow> allocationState \<Rightarrow> allocationState" where
  "markDirtyPodDeleted p st =
     (if podSpecNodeName p = [] then st else markDirty (podSpecNodeName p) st)"

definition syncComplete :: "allocationState \<Rightarrow> allocationState" where
  "syncComplete st = st\<lparr>dirtyNodes := []\<rparr>"

text \<open>Modelled from the spec: the operations of the handle tracker.\<close>

definition setAllocation :: "allocation \<Rightarrow> nat \<Rightarrow> handleTracker \<Rightarrow> handleTracker" where
  "setAllocation a p t =
     t\<lparr>allocationsByHandle :=
         (allocationsByHandle t)
           (handle a := AList.update (id_of a) p (allocationsByHandle t (handle a)))\<rparr>"

definition removeAllocation :: "allocation \<Rightarrow> handleTracker \<Rightarrow> handleTracker" where
  "removeAllocation a t =
     t\<lparr>allocationsByHandle :=
         (allocationsByHandle t)
           (handle a := AList.delete (id_of a) (allocationsByHandle t (handle a)))\<rparr>"

definition handleIsConfirmedLeak :: "controller \<Rightarrow> string \<Rightarrow> bool" where
  "handleIsConfirmedLeak c h =
     list_all (\<lambda>(i, p). isConfirmedLeak (heap c p)) (allocationsByHandle (handles c) h)"

text \<open>Modelled from the spec: the operations of the block release tracker.\<close>

definition markInUse :: "string \<Rightarrow> blockReleaseTracker \<Rightarrow> blockReleaseTracker" where
  "markInUse b t = t\<lparr>blockStates := (blockStates t)(b \<mapsto> InUse)\<rparr>"

definition markEmpty :: "time \<Rightarrow> string \<Rightarrow> blockReleaseTracker \<Rightarrow> blockReleaseTracker \<times> bool" where
  "markEmpty tnow b t =
     (case gracePeriod t of
        None \<Rightarrow> (t, True)
      | Some g \<Rightarrow>
          (case blockStates t b of
             Some (EmptySince t0) \<Rightarrow> (t, tnow - t0 \<ge> g)
           | _ \<Rightarrow> (t\<lparr>blockStates := (blockStates t)(b \<mapsto> EmptySince tnow)\<rparr>, False)))"

definition trackerOnBlockDeleted :: "string \<Rightarrow> blockReleaseTracker \<Rightarrow> blockReleaseTracker" where
  "trackerOnBlockDeleted b t = t\<lparr>blockStates := (blockStates t)(b := None)\<rparr>"

text \<open>Modelled from the spec: the operations of the pool manager.\<close>

definition poolOnBlockDeleted :: "string \<Rightarrow> poolManager \<Rightarrow> poolManager" where
  "poolOnBlockDeleted b pm =
     (case poolsByBlock pm b of
        None \<Rightarrow> pm
      | Some pl \<Rightarrow>
          pm\<lparr>blocksByPool := (blocksByPool pm)(pl := blocksByPool pm pl |-| {|b|}),
             poolsByBlock := (poolsByBlock pm)(b := None)\<rparr>)"

definition poolForBlock :: "env \<Rightarrow> poolManager \<Rightarrow> string \<Rightarrow> string" where
  "poolForBlock e pm b =
     (case find (\<lambda>(n, pl). poolContains e (poolCIDR pl) b) (allPools pm) of
        None \<Rightarrow> unknownPoolLabel
      | Some (n, pl) \<Rightarrow> n)"

definition poolOnBlockUpdated :: "env \<Rightarrow> string \<Rightarrow> poolManager \<Rightarrow> poolManager" where
  "poolOnBlockUpdated e b pm =
     (let pm1 = poolOnBlockDeleted b pm; pl = poolForBlock e pm1 b in
      pm1\<lparr>blocksByPool := (blocksByPool pm1)(pl := finsert b (blocksByPool pm1 pl)),
          poolsByBlock := (poolsByBlock pm1)(b \<mapsto> pl)\<rparr>)"

definition poolOnPoolUpdated :: "ipPool \<Rightarrow> poolManager \<Rightarrow> poolManager" where
  "poolOnPoolUpdated pl pm = pm\<lparr>allPools := AList.update (poolName pl) pl (allPools pm)\<rparr>"

definition poolOnPoolDeleted :: "string \<Rightarrow> poolManager \<Rightarrow> poolManager" where
  "poolOnPoolDeleted n pm =
     pm\<lparr>allPools := AList.delete n (allPools pm),
        blocksByPool := (blocksByPool pm)(n := {||}),
        poolsByBlock := (\<lambda>b. if poolsByBlock pm b = Some n then None else poolsByBlock pm b)\<rparr>"

text \<open>Modelled from the spec: the operations of the retry controller.\<close>

definition ScheduleRetry :: "retryController \<Rightarrow> retryController" where
  "ScheduleRetry r = r\<lparr>retryPending := True, retryFailures := Suc (retryFailures r)\<rparr>"

definition Success :: "retryController \<Rightarrow> retryController" where
  "Success r = r\<lparr>retryFailures := 0\<rparr>"

subsection \<open>Construction\<close>

text \<open>
  \<^verbatim>\<open>NewIPAMController\<close>, together with the package's \<^verbatim>\<open>init\<close>, which registers the
  metric vectors of the unknown pool.
\<close>

definition NewIPAMController :: "nodeControllerConfig \<Rightarrow> controller" where
  "NewIPAMController cfg =
     \<lparr>config = cfg,
      syncStatus_of = WaitForDatastore,
      kubernetesNodesByCalicoName = Map.empty,
      syncChan = False,
      allBlocks = Map.empty,
      heap = (\<lambda>p. \<lparr>ip = [], handle = [], attrs = Map.empty, sequenceNumber = 0, block = [],
                    knode = [], leak = Valid\<rparr>),
      nextPtr = 0,
      allocState = \<lparr>allocationsByNode = [], dirtyNodes = []\<rparr>,
      allocationsByBlock = (\<lambda>b. []),
      handles = \<lparr>allocationsByHandle = (\<lambda>h. [])\<rparr>,
      confirmedLeaks = [],
      nodesByBlock = [],
      blocksByNode = (\<lambda>n. {||}),
      releaseTracker = \<lparr>gracePeriod = LeakGracePeriod cfg, blockStates = Map.empty\<rparr>,
      emptyBlocks = [],
      pools = \<lparr>allPools = [], blocksByPool = (\<lambda>p. {||}), poolsByBlock = Map.empty\<rparr>,
      datastoreReady = True,
      fullSyncRequired = False,
      retries = \<lparr>retryPending = False, retryFailures = 0\<rparr>,
      gcReclamationCounters = [unknownPoolLabel \<mapsto> (\<lambda>n. 0)],
      ipamCalls = [],
      crashed = False\<rparr>"

subsection \<open>The feed: onStatusUpdate and onUpdate\<close>

text \<open>
  Both functions run on the feed's goroutine and only send on \<^verbatim>\<open>syncerUpdates\<close>; they
  are modelled by the messages they send.
\<close>

definition onStatusUpdate :: "syncStatus \<Rightarrow> update list" where
  "onStatusUpdate s = [SyncStatusUpdate s]"

definition onUpdate :: "kvPair \<Rightarrow> update list" where
  "onUpdate kvp =
     (case Key kvp of
        ResourceKey kind n \<Rightarrow>
          (case kind of
             KindNode \<Rightarrow> [KVPairUpdate kvp]
           | KindIPPool \<Rightarrow> [KVPairUpdate kvp]
           | KindClusterInformation \<Rightarrow> [KVPairUpdate kvp]
           | KindOther \<Rightarrow> [])
      | BlockKey cidr \<Rightarrow> [KVPairUpdate kvp]
      | OtherKey \<Rightarrow> [])"

subsection \<open>Handlers of syncer updates\<close>

definition fullScanNextSync :: "controller \<Rightarrow> controller" where
  "fullScanNextSync c = (if fullSyncRequired c then c else c\<lparr>fullSyncRequired := True\<rparr>)"

text \<open>
  A type assertion on a value of another dynamic type panics. When \<^verbatim>\<open>getK8sNodeName\<close>
  fails the name it returns is empty.
\<close>

definition handleNodeUpdate :: "kvPair \<Rightarrow> controller \<Rightarrow> controller" where
  "handleNodeUpdate kvp c =
     (case Value kvp of
        Some (NodeValue n) \<Rightarrow>
          (let kn = (case getK8sNodeName n of Inl err \<Rightarrow> [] | Inr k \<Rightarrow> k) in
           case kubernetesNodesByCalicoName c (calicoNodeName n) of
             None \<Rightarrow>
               c\<lparr>kubernetesNodesByCalicoName :=
                    (kubernetesNodesByCalicoName c)(calicoNodeName n \<mapsto> kn)\<rparr>
           | Some current \<Rightarrow>
               if current \<noteq> kn
               then c\<lparr>kubernetesNodesByCalicoName :=
                        (kubernetesNodesByCalicoName c)(calicoNodeName n \<mapsto> kn)\<rparr>
               else c)
      | Some v \<Rightarrow> c\<lparr>crashed := True\<rparr>
      | None \<Rightarrow>
          (case Key kvp of
             ResourceKey kind cnode \<Rightarrow>
               c\<lparr>kubernetesNodesByCalicoName := (kubernetesNodesByCalicoName c)(cnode := None)\<rparr>
           | k \<Rightarrow> c\<lparr>crashed := True\<rparr>))"

text \<open>
  \<^verbatim>\<open>prometheus.MustRegister\<close> panics when the vectors of the pool are registered
  already: then there is no next state.
\<close>

definition registerMetricVectorsForPool :: "string \<Rightarrow> controller \<Rightarrow> controller option" where
  "registerMetricVectorsForPool pl c =
     (case gcReclamationCounters c pl of
        Some v \<Rightarrow> None
      | None \<Rightarrow> Some (c\<lparr>gcReclamationCounters := (gcReclamationCounters c)(pl \<mapsto> (\<lambda>n. 0))\<rparr>))"

definition unregisterMetricVectorsForPool :: "string \<Rightarrow> controller \<Rightarrow> controller" where
  "unregisterMetricVectorsForPool pl c =
     c\<lparr>gcReclamationCounters := (gcReclamationCounters c)(pl := None)\<rparr>"

definition onPoolUpdated :: "ipPool \<Rightarrow> controller \<Rightarrow> controller" where
  "onPoolUpdated pl c =
     (if map_of (allPools (pools c)) (poolName pl) = None
      then
        (case registerMetricVectorsForPool (poolName pl) c of
           None \<Rightarrow> c\<lparr>crashed := True\<rparr>
         | Some c1 \<Rightarrow> c1\<lparr>pools := poolOnPoolUpdated pl (pools c1)\<rparr>)
      else c\<lparr>pools := poolOnPoolUpdated pl (pools c)\<rparr>)"

definition onPoolDeleted :: "string \<Rightarrow> controller \<Rightarrow> controller" where
  "onPoolDeleted n c =
     (let c1 = unregisterMetricVectorsForPool n c in
      c1\<lparr>pools := poolOnPoolDeleted n (pools c1)\<rparr>)"

definition handlePoolUpdate :: "kvPair \<Rightarrow> controller \<Rightarrow> controller" where
  "handlePoolUpdate kvp c =
     (case Value kvp of
        Some (IPPoolValue pl) \<Rightarrow> onPoolUpdated pl c
      | Some v \<Rightarrow> c\<lparr>crashed := True\<rparr>
      | None \<Rightarrow>
          (case Key kvp of
             ResourceKey kind n \<Rightarrow> onPoolDeleted n c
           | k \<Rightarrow> c\<lparr>crashed := True\<rparr>))"

definition handleClusterInformationUpdate :: "kvPair \<Rightarrow> controller \<Rightarrow> controller" where
  "handleClusterInformationUpdate kvp c =
     (case Value kvp of
        Some (ClusterInformationValue ci) \<Rightarrow>
          (case DatastoreReady ci of
             Some r \<Rightarrow> c\<lparr>datastoreReady := r\<rparr>
           | None \<Rightarrow> c)
      | Some v \<Rightarrow> c\<lparr>crashed := True\<rparr>
      | None \<Rightarrow> c\<lparr>datastoreReady := False\<rparr>)"

subsection \<open>onBlockUpdated and onBlockDeleted\<close>

text \<open>\<^verbatim>\<open>strings.HasPrefix(s, "host:")\<close> and \<^verbatim>\<open>strings.TrimPrefix(s, "host:")\<close>.\<close>

definition hasHostPrefix :: "string \<Rightarrow> bool" where
  "hasHostPrefix s = (take 5 s = ''host:'')"

definition trimHostPrefix :: "string \<Rightarrow> string" where
  "trimHostPrefix s = (if hasHostPrefix s then drop 5 s else s)"

text \<open>
  The affinity part of \<^verbatim>\<open>onBlockUpdated\<close>: the updated controller and the value of the
  outer variable \<^verbatim>\<open>n\<close>, which stays empty unless the block has a host affinity (the
  \<^verbatim>\<open>n\<close> of the else branch is a new variable).
\<close>

definition blockAffinity :: "string \<Rightarrow> allocationBlock \<Rightarrow> controller \<Rightarrow> controller \<times> string" where
  "blockAffinity cidr b c =
     (case Affinity b of
        Some aff \<Rightarrow>
          if hasHostPrefix aff
          then (let n = trimHostPrefix aff in
                (c\<lparr>nodesByBlock := AList.update cidr n (nodesByBlock c),
                   blocksByNode := (blocksByNode c)(n := finsert cidr (blocksByNode c n))\<rparr>, n))
          else (c, [])
      | None \<Rightarrow>
          (case map_of (nodesByBlock c) cidr of
             Some n \<Rightarrow>
               (c\<lparr>nodesByBlock := AList.delete cidr (nodesByBlock c),
                  blocksByNode := (blocksByNode c)(n := blocksByNode c n |-| {|cidr|})\<rparr>, [])
           | None \<Rightarrow> (c, [])))"

text \<open>The body of the first loop for a new allocation: \<^verbatim>\<open>&alloc\<close> is a fresh address.\<close>

definition newAllocation :: "string \<Rightarrow> allocation \<Rightarrow> controller \<Rightarrow> controller" where
  "newAllocation cidr a c =
     (let p = nextPtr c in
      c\<lparr>heap := (heap c)(p := a),
        nextPtr := Suc p,
        allocationsByBlock :=
          (allocationsByBlock c)(cidr := AList.update (id_of a) p (allocationsByBlock c cidr)),
        allocState := (if node a \<noteq> [] then allocate a p (allocState c) else allocState c),
        handles := setAllocation a p (handles c)\<rparr>)"

text \<open>
  One iteration of the loop over \<^verbatim>\<open>b.Allocations\<close>. The loop state is the controller,
  \<^verbatim>\<open>numAllocationsInBlock\<close> and the keys of \<^verbatim>\<open>currentAllocations\<close>. Indexing
  \<^verbatim>\<open>b.Attributes\<close> out of range panics.
\<close>

definition blockSlot ::
  "string \<Rightarrow> allocationBlock \<Rightarrow> nat \<Rightarrow> int option \<Rightarrow> controller \<times> nat \<times> allocId list
     \<Rightarrow> controller \<times> nat \<times> allocId list" where
  "blockSlot cidr b ord slot acc =
     (case acc of (c, num, cur) \<Rightarrow>
        (case slot of
           None \<Rightarrow> (c, num, cur)
         | Some idx \<Rightarrow>
             if idx < 0 \<or> int (length (Attributes b)) \<le> idx
             then (c\<lparr>crashed := True\<rparr>, Suc num, cur)
             else
               (case AttrPrimary (Attributes b ! nat idx) of
                  None \<Rightarrow> (c, Suc num, cur)
                | Some h \<Rightarrow>
                    (let a = \<lparr>ip = OrdinalToIP b ord, handle = h,
                              attrs = AttrSecondary (Attributes b ! nat idx),
                              sequenceNumber = GetSequenceNumberForOrdinal b ord,
                              block = cidr, knode = [], leak = Valid\<rparr>
                     in if map_of (allocationsByBlock c cidr) (id_of a) \<noteq> None
                        then (c, Suc num, id_of a # cur)
                        else (newAllocation cidr a c, Suc num, id_of a # cur)))))"

fun blockSlots ::
  "string \<Rightarrow> allocationBlock \<Rightarrow> nat \<Rightarrow> int option list \<Rightarrow> controller \<times> nat \<times> allocId list
     \<Rightarrow> controller \<times> nat \<times> allocId list" where
  "blockSlots cidr b ord [] acc = acc"
| "blockSlots cidr b ord (slot # rest) acc =
     (let acc' = blockSlot cidr b ord slot acc in
      if crashed (fst acc') then acc' else blockSlots cidr b (Suc ord) rest acc')"

text \<open>One iteration of the loop that removes the allocations released since the last update.\<close>

definition removeReleased :: "string \<Rightarrow> allocId list \<Rightarrow> allocId \<times> nat \<Rightarrow> controller \<Rightarrow> controller" where
  "removeReleased cidr cur entry c =
     (case entry of (i, p) \<Rightarrow>
        if i \<in> set cur then c
        else
          (let a = heap c p in
           c\<lparr>handles := removeAllocation a (handles c),
             allocationsByBlock :=
               (allocationsByBlock c)(cidr := AList.delete i (allocationsByBlock c cidr)),
             allocState := (if node a \<noteq> [] then release a (allocState c) else allocState c),
             confirmedLeaks := AList.delete i (confirmedLeaks c)\<rparr>))"

definition blockEmptiness :: "string \<Rightarrow> string \<Rightarrow> nat \<Rightarrow> controller \<Rightarrow> controller" where
  "blockEmptiness cidr n num c =
     (let c1 = c\<lparr>emptyBlocks := AList.delete cidr (emptyBlocks c)\<rparr> in
      if n \<noteq> [] \<and> num = 0
      then c1\<lparr>emptyBlocks := AList.update cidr n (emptyBlocks c1)\<rparr>
      else if n \<noteq> []
      then c1\<lparr>releaseTracker := markInUse cidr (releaseTracker c1)\<rparr>
      else c1)"

definition onBlockUpdated :: "env \<Rightarrow> kvPair \<Rightarrow> controller \<Rightarrow> controller" where
  "onBlockUpdated e kvp c =
     (case (Key kvp, Value kvp) of
        (BlockKey cidr, Some (BlockValue b)) \<Rightarrow>
          (case blockAffinity cidr b c of (c1, n) \<Rightarrow>
             (case blockSlots cidr b 0 (Allocations b) (c1, 0, []) of (c2, num, cur) \<Rightarrow>
                if crashed c2 then c2
                else
                  (let c3 = blockEmptiness cidr n num c2;
                       c4 = fold (removeReleased cidr cur) (allocationsByBlock c3 cidr) c3
                   in c4\<lparr>pools := poolOnBlockUpdated e cidr (pools c4),
                         allBlocks := (allBlocks c4)(cidr \<mapsto> b)\<rparr>)))
      | other \<Rightarrow> c\<lparr>crashed := True\<rparr>)"

text \<open>One iteration of the loop of \<^verbatim>\<open>onBlockDeleted\<close> over the allocations of the block.\<close>

definition releaseFromNode :: "allocId \<times> nat \<Rightarrow> controller \<Rightarrow> controller" where
  "releaseFromNode entry c =
     (let a = heap c (snd entry) in
      if node a \<noteq> [] then c\<lparr>allocState := release a (allocState c)\<rparr> else c)"

definition onBlockDeleted :: "string \<Rightarrow> controller \<Rightarrow> controller" where
  "onBlockDeleted cidr c =
     (let c1 = fold releaseFromNode (allocationsByBlock c cidr) c;
          c2 = c1\<lparr>allocationsByBlock := (allocationsByBlock c1)(cidr := [])\<rparr>;
          n = lookupD [] (nodesByBlock c2) cidr;
          c3 = (if n \<noteq> []
                then c2\<lparr>blocksByNode := (blocksByNode c2)(n := blocksByNode c2 n |-| {|cidr|})\<rparr>
                else c2)
      in c3\<lparr>allBlocks := (allBlocks c3)(cidr := None),
            nodesByBlock := AList.delete cidr (nodesByBlock c3),
            emptyBlocks := AList.delete cidr (emptyBlocks c3),
            releaseTracker := trackerOnBlockDeleted cidr (releaseTracker c3),
            pools := poolOnBlockDeleted cidr (pools c3)\<rparr>)"

definition handleBlockUpdate :: "env \<Rightarrow> kvPair \<Rightarrow> controller \<Rightarrow> controller" where
  "handleBlockUpdate e kvp c =
     (case Value kvp of
        Some v \<Rightarrow> onBlockUpdated e kvp c
      | None \<Rightarrow>
          (case Key kvp of
             BlockKey cidr \<Rightarrow> onBlockDeleted cidr c
           | k \<Rightarrow> c\<lparr>crashed := True\<rparr>))"

subsection \<open>handleUpdate\<close>

definition handleUpdate :: "env \<Rightarrow> update \<Rightarrow> controller \<Rightarrow> controller" where
  "handleUpdate e upd c =
     (case upd of
        SyncStatusUpdate s \<Rightarrow>
          (let c1 = c\<lparr>syncStatus_of := s\<rparr> in
           if s = InSync then kick c1 else c1)
      | KVPairUpdate kvp \<Rightarrow>
          (case Key kvp of
             ResourceKey kind n \<Rightarrow>
               (case kind of
                  KindNode \<Rightarrow> handleNodeUpdate kvp c
                | KindIPPool \<Rightarrow> handlePoolUpdate kvp c
                | KindClusterInformation \<Rightarrow> handleClusterInformationUpdate kvp c
                | KindOther \<Rightarrow> c)
           | BlockKey cidr \<Rightarrow> handleBlockUpdate e kvp c
           | OtherKey \<Rightarrow> c)
      | OtherUpdate \<Rightarrow> c)"

subsection \<open>Looking up Kubernetes nodes\<close>

definition kubernetesNodeForCalico :: "env \<Rightarrow> controller \<Rightarrow> string \<Rightarrow> error + string" where
  "kubernetesNodeForCalico e c cnode =
     (let fromAPI =
            (case client_Nodes_Get e cnode of
               Inl err \<Rightarrow> if err = ErrorResourceDoesNotExist then Inr [] else Inl err
             | Inr calicoNode \<Rightarrow> getK8sNodeName calicoNode)
      in case kubernetesNodesByCalicoName c cnode of
           Some kn \<Rightarrow> if kn \<noteq> [] then Inr kn else fromAPI
         | None \<Rightarrow> fromAPI)"

definition nodeExists :: "env \<Rightarrow> string \<Rightarrow> bool" where
  "nodeExists e kn =
     (case nodeLister_Get e kn of
        Inl err \<Rightarrow> if err = ErrorNotFound then False else True
      | Inr n \<Rightarrow> True)"

definition nodeIsBeingMigrated :: "env \<Rightarrow> controller \<Rightarrow> string \<Rightarrow> error + bool" where
  "nodeIsBeingMigrated e c name =
     (case kubernetesNodeForCalico e c name of
        Inl err \<Rightarrow> Inl err
      | Inr kname \<Rightarrow>
          (case nodeLister_Get e kname of
             Inl err \<Rightarrow>
               if err = ErrorNotFound then Inr False
               else Inl (ErrorWrapped ''failed to check node for migration status: '' err)
           | Inr n \<Rightarrow>
               Inr (list_ex (\<lambda>(labelName, labelVal).
                       list_ex (\<lambda>(migrationLabelName, migrationLabelValue).
                          labelName = migrationLabelName \<and> labelVal \<noteq> migrationLabelValue)
                         (NodeNetworkCalico e))
                     (nodeLabels n))))"

subsection \<open>checkAllocations\<close>

definition setAlloc :: "nat \<Rightarrow> allocation \<Rightarrow> controller \<Rightarrow> controller" where
  "setAlloc p a c = c\<lparr>heap := (heap c)(p := a)\<rparr>"

text \<open>
  The tail of the loop body over the allocations of a node: the allocation joins or
  leaves the index of confirmed leaks.
\<close>

definition indexLeak :: "nat \<Rightarrow> controller \<Rightarrow> controller" where
  "indexLeak p c =
     (let a = heap c p in
      if isConfirmedLeak a
      then c\<lparr>confirmedLeaks := AList.update (id_of a) p (confirmedLeaks c)\<rparr>
      else if map_of (confirmedLeaks c) (id_of a) \<noteq> None
      then c\<lparr>confirmedLeaks := AList.delete (id_of a) (confirmedLeaks c)\<rparr>
      else c)"

text \<open>
  One iteration of the loop over the allocations of a node. The loop state is the
  controller, \<^verbatim>\<open>canDelete\<close> and \<^verbatim>\<open>tunnelAddresses\<close>.
\<close>

definition checkAllocation ::
  "env \<Rightarrow> string \<Rightarrow> bool \<Rightarrow> allocId \<times> nat \<Rightarrow> controller \<times> bool \<times> nat list
     \<Rightarrow> controller \<times> bool \<times> nat list" where
  "checkAllocation e kn kubernetesNodeExists entry acc =
     (case acc of (c0, canDelete, tunnelAddresses) \<Rightarrow>
        (let p = snd entry;
             c = setAlloc p ((heap c0 p)\<lparr>knode := kn\<rparr>) c0;
             a = heap c p
         in if isWindowsReserved e a then (c, canDelete, tunnelAddresses)
            else if \<not> isPodIP a \<and> \<not> isTunnelAddress a then (c, False, tunnelAddresses)
            else if isTunnelAddress a then (c, canDelete, tunnelAddresses @ [p])
            else if allocationIsValid e a True then (setAlloc p (markValid a) c, False, tunnelAddresses)
            else if \<not> kubernetesNodeExists
            then (indexLeak p (setAlloc p (markConfirmedLeak a) c), canDelete, tunnelAddresses)
            else
              (case LeakGracePeriod (config c) of
                 Some g \<Rightarrow> (indexLeak p (setAlloc p (markLeak (now e) g a) c), canDelete, tunnelAddresses)
               | None \<Rightarrow> (indexLeak p c, canDelete, tunnelAddresses))))"

definition markTunnel :: "nat \<Rightarrow> controller \<Rightarrow> controller" where
  "markTunnel p c =
     (let c1 = setAlloc p (markConfirmedLeak (heap c p)) c in
      c1\<lparr>confirmedLeaks := AList.update (id_of (heap c1 p)) p (confirmedLeaks c1)\<rparr>)"

text \<open>
  One iteration of the loop over \<^verbatim>\<open>nodesToCheck\<close>. The loop state is the controller and
  \<^verbatim>\<open>nodesToRelease\<close>. An error of \<^verbatim>\<open>kubernetesNodeForCalico\<close> is logged and the node
  is skipped.
\<close>

definition checkNode ::
  "env \<Rightarrow> string \<times> allocIndex \<Rightarrow> controller \<times> string list \<Rightarrow> controller \<times> string list" where
  "checkNode e entry acc =
     (case entry of (cnode, allocations) \<Rightarrow>
      case acc of (c, nodesToRelease) \<Rightarrow>
        (case kubernetesNodeForCalico e c cnode of
           Inl err \<Rightarrow> (c, nodesToRelease)
         | Inr kn \<Rightarrow>
             (let kubernetesNodeExists = (kn \<noteq> [] \<and> nodeExists e kn) in
              case fold (checkAllocation e kn kubernetesNodeExists) allocations (c, True, [])
              of (c1, canDelete, tunnelAddresses) \<Rightarrow>
                if \<not> kubernetesNodeExists
                then (if \<not> canDelete then (c1, nodesToRelease)
                      else (fold markTunnel tunnelAddresses c1, nodesToRelease @ [cnode]))
                else (c1, nodesToRelease))))"

text \<open>
  The map \<^verbatim>\<open>nodesToCheck\<close>. On a full scan every node with an affine block gets a nil
  entry, which the nodes with allocations then overwrite; otherwise the dirty nodes are
  visited. Modelled from the spec: \<^verbatim>\<open>iter\<close> visits every node of the allocation state
  and \<^verbatim>\<open>iterDirty\<close> every dirty node, with the allocations on it.
\<close>

definition nodesToCheck :: "controller \<Rightarrow> (string \<times> allocIndex) list" where
  "nodesToCheck c =
     (if fullSyncRequired c
      then fold (\<lambda>(n, allocations) m. AList.update n allocations m)
             (allocationsByNode (allocState c))
             (fold (\<lambda>(b, n) m. AList.update n [] m) (nodesByBlock c) [])
      else fold (\<lambda>n m. AList.update n (lookupD [] (allocationsByNode (allocState c)) n) m)
             (dirtyNodes (allocState c)) [])"

definition checkAllocations :: "env \<Rightarrow> controller \<Rightarrow> controller \<times> string list \<times> error option" where
  "checkAllocations e c =
     (let todo = nodesToCheck c;
          c1 = (if fullSyncRequired c then c\<lparr>fullSyncRequired := False\<rparr> else c)
      in case fold (checkNode e) todo (c1, []) of
           (c2, nodesToRelease) \<Rightarrow> (c2, nodesToRelease, None))"

subsection \<open>garbageCollectKnownLeaks\<close>

definition maxBatchSize :: nat where
  "maxBatchSize = 10000"

definition incrementReclamationMetric :: "string \<Rightarrow> string \<Rightarrow> controller \<Rightarrow> controller" where
  "incrementReclamationMetric blk nd c =
     (let pl = (case poolsByBlock (pools c) blk of None \<Rightarrow> [] | Some q \<Rightarrow> q);
          n = (if nd = [] then unknownNodeLabel else nd)
      in case gcReclamationCounters c pl of
           None \<Rightarrow> c
         | Some counter \<Rightarrow>
             c\<lparr>gcReclamationCounters :=
                 (gcReclamationCounters c)(pl \<mapsto> counter(n := Suc (counter n)))\<rparr>)"

text \<open>
  The loop over \<^verbatim>\<open>confirmedLeaks\<close>. The loop state is the controller, \<^verbatim>\<open>opts\<close> and the
  map \<^verbatim>\<open>leaks\<close> from address to allocation; the loop ends early when the batch is full.
\<close>

fun gcCollect ::
  "env \<Rightarrow> allocIndex \<Rightarrow> controller \<times> releaseOptions list \<times> (string \<times> nat) list
     \<Rightarrow> controller \<times> releaseOptions list \<times> (string \<times> nat) list" where
  "gcCollect e [] acc = acc"
| "gcCollect e ((i, p) # rest) (c, opts, leaks) =
     (let a = heap c p in
      if allocationIsValid e a (knode a = [])
      then gcCollect e rest
             (setAlloc p (markValid a) (c\<lparr>confirmedLeaks := AList.delete i (confirmedLeaks c)\<rparr>),
              opts, leaks)
      else if \<not> handleIsConfirmedLeak c (handle a) then gcCollect e rest (c, opts, leaks)
      else
        (let opts' = opts @ [ReleaseOptions a];
             leaks' = AList.update (Address (ReleaseOptions a)) p leaks
         in if length opts' \<ge> maxBatchSize then (c, opts', leaks')
            else gcCollect e rest (c, opts', leaks')))"

text \<open>
  The body of the loop over the options that \<^verbatim>\<open>ReleaseIPs\<close> returned, for the
  allocation found in \<^verbatim>\<open>leaks\<close>.
\<close>

definition markReleased :: "allocation \<Rightarrow> controller \<Rightarrow> controller" where
  "markReleased a c =
     (let c1 = c\<lparr>allocState := release a (allocState c)\<rparr>;
          c2 = incrementReclamationMetric (block a) (node a) c1
      in c2\<lparr>confirmedLeaks := AList.delete (id_of a) (confirmedLeaks c2)\<rparr>)"

text \<open>
  The loop over the options that \<^verbatim>\<open>ReleaseIPs\<close> returned. An option with no entry in
  \<^verbatim>\<open>leaks\<close> ends the process in \<^verbatim>\<open>log.Fatalf\<close>.
\<close>

fun gcReleased ::
  "releaseOptions list \<Rightarrow> controller \<times> (string \<times> nat) list \<Rightarrow> controller \<times> (string \<times> nat) list" where
  "gcReleased [] acc = acc"
| "gcReleased (opt # rest) (c, leaks) =
     (case map_of leaks (Address opt) of
        None \<Rightarrow> (c\<lparr>crashed := True\<rparr>, leaks)
      | Some p \<Rightarrow> gcReleased rest (markReleased (heap c p) c, AList.delete (Address opt) leaks))"

definition garbageCollectKnownLeaks :: "env \<Rightarrow> controller \<Rightarrow> controller \<times> error option" where
  "garbageCollectKnownLeaks e c =
     (case gcCollect e (confirmedLeaks c) (c, [], []) of (c1, opts, leaks) \<Rightarrow>
        if length opts = 0 then (c1, None)
        else
          (let c2 = c1\<lparr>ipamCalls := ipamCalls c1 @ [ReleaseIPsCall opts]\<rparr> in
           case IPAM_ReleaseIPs e opts of (releasedOpts, err) \<Rightarrow>
           case gcReleased releasedOpts (c2, leaks) of (c3, leaks') \<Rightarrow>
             if crashed c3 then (c3, None)
             else
               (case err of
                  Some er \<Rightarrow> if er \<noteq> ErrorResourceDoesNotExist then (c3, Some er) else (c3, None)
                | None \<Rightarrow> (c3, None))))"

subsection \<open>releaseUnusedBlocks\<close>

text \<open>One iteration of the loop over \<^verbatim>\<open>emptyBlocks\<close>.\<close>

definition releaseUnusedBlock :: "env \<Rightarrow> string \<times> string \<Rightarrow> controller \<Rightarrow> controller" where
  "releaseUnusedBlock e entry c =
     (case entry of (blockCIDR, nd) \<Rightarrow>
        if fcard (blocksByNode c nd) \<le> 1 then c
        else
          (case nodeIsBeingMigrated e c nd of
             Inl err \<Rightarrow> c\<lparr>releaseTracker := markInUse blockCIDR (releaseTracker c)\<rparr>
           | Inr migrating \<Rightarrow>
               if migrating then c\<lparr>releaseTracker := markInUse blockCIDR (releaseTracker c)\<rparr>
               else
                 (case markEmpty (now e) blockCIDR (releaseTracker c) of (t, elapsed) \<Rightarrow>
                    (let c1 = c\<lparr>releaseTracker := t\<rparr> in
                     if \<not> elapsed then c1
                     else
                       (case allBlocks c1 blockCIDR of
                          None \<Rightarrow> c1
                        | Some blk \<Rightarrow>
                            (let c2 = c1\<lparr>ipamCalls :=
                                          ipamCalls c1 @ [ReleaseBlockAffinityCall blockCIDR]\<rparr>
                             in case IPAM_ReleaseBlockAffinity e blockCIDR of
                                  Some err \<Rightarrow> c2
                                | None \<Rightarrow>
                                    c2\<lparr>emptyBlocks := AList.delete blockCIDR (emptyBlocks c2),
                                       blocksByNode :=
                                         (blocksByNode c2)(nd := blocksByNode c2 nd |-| {|blockCIDR|}),
                                       nodesByBlock := AList.delete blockCIDR (nodesByBlock c2),
                                       allBlocks := (allBlocks c2)(blockCIDR := None),
                                       releaseTracker :=
                                         trackerOnBlockDeleted blockCIDR (releaseTracker c2),
                                       pools := poolOnBlockDeleted blockCIDR (pools c2)\<rparr>))))))"

definition releaseUnusedBlocks :: "env \<Rightarrow> controller \<Rightarrow> controller \<times> error option" where
  "releaseUnusedBlocks e c = (fold (releaseUnusedBlock e) (emptyBlocks c) c, None)"

subsection \<open>releaseNodes\<close>

definition clearReclaimedIPCountForNode :: "string \<Rightarrow> controller \<Rightarrow> controller" where
  "clearReclaimedIPCountForNode nd c =
     c\<lparr>gcReclamationCounters :=
         (\<lambda>pl. map_option (\<lambda>counter. counter(nd := 0)) (gcReclamationCounters c pl))\<rparr>"

definition cleanupNode :: "env \<Rightarrow> string \<Rightarrow> controller \<Rightarrow> controller \<times> error option" where
  "cleanupNode e cnode c =
     (let c1 = c\<lparr>ipamCalls := ipamCalls c @ [ReleaseHostAffinitiesCall cnode]\<rparr> in
      case IPAM_ReleaseHostAffinities e cnode of
        Some err \<Rightarrow> (c1, Some err)
      | None \<Rightarrow> (clearReclaimedIPCountForNode cnode c1, None))"

definition releaseNodes :: "env \<Rightarrow> string list \<Rightarrow> controller \<Rightarrow> controller \<times> error option" where
  "releaseNodes e nodes c =
     fold (\<lambda>cnode (c', storedErr).
             case cleanupNode e cnode c' of
               (c'', Some err) \<Rightarrow> (c'', Some err)
             | (c'', None) \<Rightarrow> (c'', storedErr))
       nodes (c, None)"

subsection \<open>syncIPAM\<close>

definition syncIPAM :: "env \<Rightarrow> controller \<Rightarrow> controller \<times> error option" where
  "syncIPAM e c =
     (if \<not> datastoreReady c then (c, None)
      else if syncStatus_of c \<noteq> InSync then (c, None)
      else
        (case checkAllocations e c of (c1, nodesToRelease, err1) \<Rightarrow>
         case err1 of
           Some er \<Rightarrow> (c1, Some er)
         | None \<Rightarrow>
             (case garbageCollectKnownLeaks e c1 of (c2, err2) \<Rightarrow>
              if crashed c2 then (c2, None)
              else
                (case err2 of
                   Some er \<Rightarrow> (c2, Some er)
                 | None \<Rightarrow>
                     (case releaseUnusedBlocks e c2 of (c3, err3) \<Rightarrow>
                      case err3 of
                        Some er \<Rightarrow> (c3, Some er)
                      | None \<Rightarrow>
                          (case releaseNodes e nodesToRelease c3 of (c4, err4) \<Rightarrow>
                           case err4 of
                             Some er \<Rightarrow> (c4, Some er)
                           | None \<Rightarrow>
                               (let c5 = c4\<lparr>allocState := syncComplete (allocState c4)\<rparr> in
                                if length (confirmedLeaks c5) > 0 then (kick c5, None)
                                else (c5, None))))))))"

subsection \<open>The main loop\<close>

text \<open>
  What can wake \<^verbatim>\<open>acceptScheduleRequests\<close> up. Modelled from the spec:
  \<^verbatim>\<open>utils.ProcessBatch\<close> hands the message received and those drained from the channel
  during the consolidation window to the handler, in order; the batch is the payload of
  the event. The timer of the retry controller runs beside the loop and kicks the channel
  when it fires.
\<close>

datatype event =
    NodeDeletion
  | PodDeletion "pod list"
  | SyncerUpdate "update list"
  | Tick
  | SyncChanReceive
  | PauseRequest
  | Stop
  | RetryTimer

definition processUpdates :: "env \<Rightarrow> update list \<Rightarrow> controller \<Rightarrow> controller" where
  "processUpdates e upds c =
     fold (\<lambda>upd c'. if crashed c' then c' else handleUpdate e upd c') upds c"

text \<open>
  One turn of the loop of \<^verbatim>\<open>acceptScheduleRequests\<close>. \<^verbatim>\<open>updateMetrics\<close> writes gauges
  only, which the model does not carry.
\<close>

definition acceptScheduleRequests_step :: "env \<Rightarrow> event \<Rightarrow> controller \<Rightarrow> controller" where
  "acceptScheduleRequests_step e ev c =
     (if crashed c then c
      else
        (case ev of
           NodeDeletion \<Rightarrow> kick (fullScanNextSync c)
         | PodDeletion pods \<Rightarrow> kick (c\<lparr>allocState := fold markDirtyPodDeleted pods (allocState c)\<rparr>)
         | SyncerUpdate upds \<Rightarrow>
             (let c1 = processUpdates e upds c in if crashed c1 then c1 else kick c1)
         | Tick \<Rightarrow> fst (syncIPAM e (fullScanNextSync c))
         | SyncChanReceive \<Rightarrow>
             if \<not> syncChan c then c
             else
               (case syncIPAM e (c\<lparr>syncChan := False\<rparr>) of (c1, err) \<Rightarrow>
                  if crashed c1 then c1
                  else
                    (case err of
                       Some er \<Rightarrow> c1\<lparr>retries := ScheduleRetry (retries c1)\<rparr>
                     | None \<Rightarrow> c1\<lparr>retries := Success (retries c1)\<rparr>))
         | PauseRequest \<Rightarrow> c
         | Stop \<Rightarrow> c
         | RetryTimer \<Rightarrow>
             if retryPending (retries c)
             then kick (c\<lparr>retries := (retries c)\<lparr>retryPending := False\<rparr>\<rparr>)
             else c))"

section \<open>Statements of the specification and example values\<close>

text \<open>
  The decision table that the specification gives for \<^verbatim>\<open>allocationIsValid\<close>, clause by
  clause in its order; the last clause holds when some IP network of the workload
  endpoints derived from the pod is the address of the allocation.
\<close>

definition endpointNetworks :: "env \<Rightarrow> pod \<Rightarrow> string set" where
  "endpointNetworks e p =
     (case PodToWorkloadEndpoints e p of
        Inl err \<Rightarrow> {}
      | Inr kvps \<Rightarrow> {nw. \<exists>nws. Some nws \<in> set kvps \<and> nw \<in> set nws})"

definition allocationIsValid_spec :: "env \<Rightarrow> allocation \<Rightarrow> bool \<Rightarrow> bool" where
  "allocationIsValid_spec e a preferCache =
     (if isTunnelAddress a then knode a \<noteq> []
      else if attr a AttributeNamespace = [] \<or> attr a AttributePod = [] then True
      else
        (case getPod e preferCache (attr a AttributeNamespace) (attr a AttributePod) of
           Inl err \<Rightarrow> err \<noteq> ErrorNotFound
         | Inr p \<Rightarrow>
             if podSpecNodeName p \<noteq> [] \<and> knode a \<noteq> [] \<and> podSpecNodeName p \<noteq> knode a
             then False
             else if podStatusPodIP p = [] \<or> podStatusPodIPs p = [] then True
             else if podStatusPhase p = PodFailed \<and> podStatusReason p = ''Evicted'' then False
             else (\<exists>nw. nw \<in> endpointNetworks e p \<and> ParseCIDR e nw \<noteq> None
                        \<and> ParseCIDR e nw = ParseIP e (ip a))))"

text \<open>
  An environment in which no pod and no node exists and every release succeeds, one
  allocation of a pod, and that pod.
\<close>

definition env0 :: env where
  "env0 =
     \<lparr>podLister_Get = (\<lambda>ns p. Inl ErrorNotFound),
      clientset_Pods_Get = (\<lambda>ns p. Inl ErrorNotFound),
      PodToWorkloadEndpoints = (\<lambda>p. Inr []),
      ParseCIDR = (\<lambda>s. None),
      ParseIP = (\<lambda>s. None),
      nodeLister_Get = (\<lambda>n. Inl ErrorNotFound),
      client_Nodes_Get = (\<lambda>n. Inl ErrorResourceDoesNotExist),
      IPAM_ReleaseIPs = (\<lambda>opts. (opts, None)),
      IPAM_ReleaseBlockAffinity = (\<lambda>b. None),
      IPAM_ReleaseHostAffinities = (\<lambda>n. None),
      NodeNetworkCalico = [],
      poolContains = (\<lambda>p b. False),
      isWindowsReserved = (\<lambda>a. False),
      now = 0\<rparr>"

definition alloc1 :: allocation where
  "alloc1 =
     \<lparr>ip = ''10.0.0.1'', handle = ''h1'',
      attrs = [''namespace'' \<mapsto> ''ns1'', ''pod'' \<mapsto> ''p1'', ''node'' \<mapsto> ''n1''],
      sequenceNumber = 0, block = ''10.0.0.0/26'', knode = ''n1'', leak = Confirmed\<rparr>"

definition pod1 :: pod where
  "pod1 =
     \<lparr>podSpecNodeName = ''n1'', podStatusPodIP = ''10.0.0.1'', podStatusPodIPs = [''10.0.0.1''],
      podStatusPhase = ''Running'', podStatusReason = []\<rparr>"

text \<open>The environment in which the pod exists and its conversion to endpoints fails.\<close>

definition envConvFails :: env where
  "envConvFails =
     env0\<lparr>podLister_Get := (\<lambda>ns p. Inr pod1),
          PodToWorkloadEndpoints := (\<lambda>p. Inl (ErrorOther ''conversion failed''))\<rparr>"

text \<open>What \<^verbatim>\<open>syncIPAM\<close> does after the scan, given the nodes to release.\<close>

definition syncAfterScan :: "env \<Rightarrow> string list \<Rightarrow> controller \<Rightarrow> controller \<times> error option" where
  "syncAfterScan e nodesToRelease c1 =
     (case garbageCollectKnownLeaks e c1 of (c2, err2) \<Rightarrow>
        if crashed c2 then (c2, None)
        else
          (case err2 of
             Some er \<Rightarrow> (c2, Some er)
           | None \<Rightarrow>
               (case releaseUnusedBlocks e c2 of (c3, err3) \<Rightarrow>
                case err3 of
                  Some er \<Rightarrow> (c3, Some er)
                | None \<Rightarrow>
                    (case releaseNodes e nodesToRelease c3 of (c4, err4) \<Rightarrow>
                     case err4 of
                       Some er \<Rightarrow> (c4, Some er)
                     | None \<Rightarrow>
                         (let c5 = c4\<lparr>allocState := syncComplete (allocState c4)\<rparr> in
                          if length (confirmedLeaks c5) > 0 then (kick c5, None)
                          else (c5, None))))))"

text \<open>An environment in which looking a Calico node up fails, and a controller in sync.\<close>

definition envNodeLookupFails :: env where
  "envNodeLookupFails = env0\<lparr>client_Nodes_Get := (\<lambda>n. Inl (ErrorOther ''timeout''))\<rparr>"

definition ctlInSync :: controller where
  "ctlInSync = (NewIPAMController \<lparr>LeakGracePeriod = None\<rparr>)\<lparr>syncStatus_of := InSync\<rparr>"

text \<open>
  The state of the retry controller and of the kick channel: what a sync leaves for the
  main loop to act on.
\<close>

definition loopControl :: "controller \<Rightarrow> retryController \<times> bool" where
  "loopControl c = (retries c, syncChan c)"

text \<open>
  An environment in which releasing host affinities fails, and a controller in sync that
  knows one block, affine to a node that Kubernetes and the datastore do not have.
\<close>

definition envReleaseFails :: env where
  "envReleaseFails = env0\<lparr>IPAM_ReleaseHostAffinities := (\<lambda>n. Some (ErrorOther ''unavailable''))\<rparr>"

definition ctlOrphan :: controller where
  "ctlOrphan = ctlInSync\<lparr>nodesByBlock := [(''10.0.0.0/26'', ''n1'')], fullSyncRequired := True\<rparr>"


text \<open>The options that \<^verbatim>\<open>garbageCollectKnownLeaks\<close> collects for \<^verbatim>\<open>ReleaseIPs\<close>.\<close>

definition gcBatch :: "env \<Rightarrow> controller \<Rightarrow> releaseOptions list" where
  "gcBatch e c = fst (snd (gcCollect e (confirmedLeaks c) (c, [], [])))"

text \<open>Two allocations that differ at most in their leak state.\<close>

definition sameButLeak :: "allocation \<Rightarrow> allocation \<Rightarrow> bool" where
  "sameButLeak a b =
     (ip a = ip b \<and> handle a = handle b \<and> attrs a = attrs b \<and>
      sequenceNumber a = sequenceNumber b \<and> block a = block b \<and> knode a = knode b)"

text \<open>
  What the loop of \<^verbatim>\<open>garbageCollectKnownLeaks\<close> may have done to the controller since
  it started: marked allocations valid.
\<close>

definition resurrectedFrom :: "controller \<Rightarrow> controller \<Rightarrow> bool" where
  "resurrectedFrom c0 c =
     (handles c = handles c0 \<and>
      (\<forall>p. sameButLeak (heap c p) (heap c0 p) \<and>
           (isConfirmedLeak (heap c p) \<longrightarrow> isConfirmedLeak (heap c0 p))))"

text \<open>
  A second allocation, and a controller in sync that holds both allocations as confirmed
  leaks of the node n1.
\<close>

definition alloc2 :: allocation where
  "alloc2 =
     \<lparr>ip = ''10.0.0.2'', handle = ''h2'',
      attrs = [''namespace'' \<mapsto> ''ns1'', ''pod'' \<mapsto> ''p2'', ''node'' \<mapsto> ''n1''],
      sequenceNumber = 0, block = ''10.0.0.0/26'', knode = ''n1'', leak = Confirmed\<rparr>"

definition ctlTwoLeaks :: controller where
  "ctlTwoLeaks =
     ctlInSync
       \<lparr>heap := (heap ctlInSync)(0 := alloc1, 1 := alloc2),
        nextPtr := 2,
        allocState :=
          \<lparr>allocationsByNode = [(''n1'', [(id_of alloc1, 0), (id_of alloc2, 1)])], dirtyNodes = []\<rparr>,
        allocationsByBlock := (\<lambda>b. [])(''10.0.0.0/26'' := [(id_of alloc1, 0), (id_of alloc2, 1)]),
        handles :=
          \<lparr>allocationsByHandle =
             (\<lambda>h. [])(''h1'' := [(id_of alloc1, 0)], ''h2'' := [(id_of alloc2, 1)])\<rparr>,
        confirmedLeaks := [(id_of alloc1, 0), (id_of alloc2, 1)],
        pools := (pools ctlInSync)\<lparr>poolsByBlock := [''10.0.0.0/26'' \<mapsto> unknownPoolLabel]\<rparr>\<rparr>"

text \<open>An environment in which \<^verbatim>\<open>ReleaseIPs\<close> releases nothing and fails.\<close>

definition envIPAMDown :: env where
  "envIPAMDown = env0\<lparr>IPAM_ReleaseIPs := (\<lambda>opts. ([], Some (ErrorOther ''unavailable'')))\<rparr>"

text \<open>An environment in which \<^verbatim>\<open>ReleaseIPs\<close> releases the first option only.\<close>

definition envReleasesFirst :: env where
  "envReleasesFirst = env0\<lparr>IPAM_ReleaseIPs := (\<lambda>opts. (take 1 opts, None))\<rparr>"






text \<open>
  The block update in which every allocated slot whose attribute record has no primary
  handle is free instead.
\<close>

definition freeIfNoHandle :: "allocationBlock \<Rightarrow> int option \<Rightarrow> int option" where
  "freeIfNoHandle b slot =
     (case slot of
        None \<Rightarrow> None
      | Some idx \<Rightarrow>
          if 0 \<le> idx \<and> idx < int (length (Attributes b)) \<and>
             AttrPrimary (Attributes b ! nat idx) = None
          then None else Some idx)"

definition withoutHandleless :: "kvPair \<Rightarrow> kvPair" where
  "withoutHandleless kvp =
     (case Value kvp of
        Some (BlockValue b) \<Rightarrow>
          kvp\<lparr>Value := Some (BlockValue (b\<lparr>Allocations := map (freeIfNoHandle b) (Allocations b)\<rparr>))\<rparr>
      | other \<Rightarrow> kvp)"

text \<open>The parts of the controller that record whether blocks are empty, and the raw blocks.\<close>

definition withEmptiness ::
  "(string \<times> string) list \<Rightarrow> blockReleaseTracker \<Rightarrow> (string \<rightharpoonup> allocationBlock) \<Rightarrow> controller
     \<Rightarrow> controller" where
  "withEmptiness eb rt ab c = c\<lparr>emptyBlocks := eb, releaseTracker := rt, allBlocks := ab\<rparr>"

text \<open>
  An update of a block affine to the node n1 whose only allocated slot has an attribute
  record without a primary handle.
\<close>

definition blockNoHandle :: kvPair where
  "blockNoHandle =
     \<lparr>Key = BlockKey ''10.2.0.0/26'',
      Value = Some (BlockValue
        \<lparr>Affinity = Some ''host:n1'', Allocations = [Some 0],
         Attributes = [\<lparr>AttrPrimary = None, AttrSecondary = Map.empty\<rparr>],
         OrdinalToIP = (\<lambda>ord. ''10.2.0.0''), GetSequenceNumberForOrdinal = (\<lambda>ord. 0)\<rparr>)\<rparr>"





























section \<open>Properties\<close>

subsection \<open>The period of the ticker\<close>

text \<open>
  C6, as amended. The ticker of the periodic sync fires every half grace period whenever
  a grace period of at least two nanoseconds is configured, also when that is less than
  five minutes: then the period is the maximum of five minutes and half the grace period
  exactly when half the grace period is at least five minutes. It fires every five
  minutes when no grace period, or one that is not positive, is configured. With a grace
  period of one nanosecond the period is zero and \<^verbatim>\<open>time.NewTicker\<close> panics: there is
  no ticker.
\<close>

theorem period_is_half_grace:
  "(LeakGracePeriod cfg = None \<longrightarrow> acceptScheduleRequests_ticker cfg = Some (5 * Minute)) \<and>
   (\<forall>G. LeakGracePeriod cfg = Some G \<and> G \<le> 0 \<longrightarrow>
      acceptScheduleRequests_ticker cfg = Some (5 * Minute)) \<and>
   (LeakGracePeriod cfg = Some 1 \<longrightarrow>
      acceptScheduleRequests_period cfg = 0 \<and> acceptScheduleRequests_ticker cfg = None) \<and>
   (\<forall>G. LeakGracePeriod cfg = Some G \<and> 2 \<le> G \<longrightarrow>
      acceptScheduleRequests_period cfg = G div 2 \<and>
      acceptScheduleRequests_ticker cfg = Some (G div 2) \<and>
      (acceptScheduleRequests_ticker cfg = Some (max (5 * Minute) (G div 2))
         \<longleftrightarrow> 5 * Minute \<le> G div 2))"
proof -
  have five: "(0::int) < 5 * Minute" by (simp add: Minute_def Second_def)
  have half: "0 < G div 2" if "2 \<le> G" for G :: int
    using that by simp
  show ?thesis
  proof (intro conjI allI impI)
    assume "LeakGracePeriod cfg = None"
    with five show "acceptScheduleRequests_ticker cfg = Some (5 * Minute)"
      by (simp add: acceptScheduleRequests_ticker_def acceptScheduleRequests_period_def NewTicker_def)
  next
    fix G assume "LeakGracePeriod cfg = Some G \<and> G \<le> 0"
    with five show "acceptScheduleRequests_ticker cfg = Some (5 * Minute)"
      by (simp add: acceptScheduleRequests_ticker_def acceptScheduleRequests_period_def NewTicker_def)
  next
    assume "LeakGracePeriod cfg = Some 1"
    then show "acceptScheduleRequests_period cfg = 0"
      by (simp add: acceptScheduleRequests_period_def)
  next
    assume "LeakGracePeriod cfg = Some 1"
    then show "acceptScheduleRequests_ticker cfg = None"
      by (simp add: acceptScheduleRequests_ticker_def acceptScheduleRequests_period_def NewTicker_def)
  next
    fix G assume "LeakGracePeriod cfg = Some G \<and> 2 \<le> G"
    then show "acceptScheduleRequests_period cfg = G div 2"
      by (simp add: acceptScheduleRequests_period_def)
  next
    fix G assume g: "LeakGracePeriod cfg = Some G \<and> 2 \<le> G"
    with half [of G] show "acceptScheduleRequests_ticker cfg = Some (G div 2)"
      by (simp add: acceptScheduleRequests_ticker_def acceptScheduleRequests_period_def NewTicker_def)
  next
    fix G assume g: "LeakGracePeriod cfg = Some G \<and> 2 \<le> G"
    with half [of G]
    show "(acceptScheduleRequests_ticker cfg = Some (max (5 * Minute) (G div 2)))
            = (5 * Minute \<le> G div 2)"
      by (auto simp: acceptScheduleRequests_ticker_def acceptScheduleRequests_period_def NewTicker_def)
  qed
qed

theorem period_is_half_grace_witness:
  "acceptScheduleRequests_ticker \<lparr>LeakGracePeriod = Some (2 * Minute)\<rparr> = Some Minute \<and>
   acceptScheduleRequests_ticker \<lparr>LeakGracePeriod = Some (2 * Minute)\<rparr>
     \<noteq> Some (max (5 * Minute) ((2 * Minute) div 2)) \<and>
   acceptScheduleRequests_ticker \<lparr>LeakGracePeriod = Some 1\<rparr> = None \<and>
   acceptScheduleRequests_ticker \<lparr>LeakGracePeriod = Some 0\<rparr> = Some (5 * Minute) \<and>
   acceptScheduleRequests_ticker \<lparr>LeakGracePeriod = None\<rparr> = Some (5 * Minute)"
  using period_is_half_grace [of "\<lparr>LeakGracePeriod = Some (2 * Minute)\<rparr>"]
    period_is_half_grace [of "\<lparr>LeakGracePeriod = Some 1\<rparr>"]
    period_is_half_grace [of "\<lparr>LeakGracePeriod = Some 0\<rparr>"]
    period_is_half_grace [of "\<lparr>LeakGracePeriod = None\<rparr>"]
  by (simp add: Minute_def Second_def)

theorem period_not_max_counterexample:
  "acceptScheduleRequests_ticker \<lparr>LeakGracePeriod = Some (2 * Minute)\<rparr> = Some Minute \<and>
   Some Minute \<noteq> Some (max (5 * Minute) ((2 * Minute) div 2))"
  by (simp add: acceptScheduleRequests_ticker_def acceptScheduleRequests_period_def NewTicker_def
        Minute_def Second_def)

subsection \<open>allocationIsValid\<close>

lemma scanIPNetworks_eq:
  "scanIPNetworks e a nws =
     (if \<exists>nw\<in>set nws. ParseCIDR e nw = None \<or> ParseIP e (ip a) = None
                          \<or> ParseIP e (ip a) = ParseCIDR e nw
      then Some True else None)"
  by (induction nws) (auto split: option.splits)

lemma scanEndpoints_eq:
  "scanEndpoints e a kvps =
     (\<exists>nws. Some nws \<in> set kvps \<and>
        (\<exists>nw\<in>set nws. ParseCIDR e nw = None \<or> ParseIP e (ip a) = None
                          \<or> ParseIP e (ip a) = ParseCIDR e nw))"
  by (induction e a kvps rule: scanEndpoints.induct)
     (auto simp: scanIPNetworks_eq split: option.splits)

lemma scanEndpoints_networks:
  "PodToWorkloadEndpoints e p = Inr kvps \<Longrightarrow>
   scanEndpoints e a kvps =
     (\<exists>nw. nw \<in> endpointNetworks e p \<and>
        (ParseCIDR e nw = None \<or> ParseIP e (ip a) = None \<or> ParseIP e (ip a) = ParseCIDR e nw))"
  unfolding scanEndpoints_eq endpointNetworks_def by auto

text \<open>
  C2, as amended. \<^verbatim>\<open>allocationIsValid(a, preferCache)\<close> returns, by the first clause
  that applies: for a tunnel address, true iff \<^verbatim>\<open>a.knode\<close> is not empty; true when the
  namespace or the pod attribute is missing; false when the pod lookup reports
  not-found; true when it fails with any other error; false when the pod's node name and
  \<^verbatim>\<open>a.knode\<close> are both non-empty and differ; true when the pod has no status IP yet; false
  when the pod has failed with reason Evicted; true when the conversion of the pod to
  workload endpoints fails; otherwise true iff some IP network of the endpoints cannot be
  parsed, or the address of the allocation cannot be parsed and there is an IP network at
  all, or some IP network is the address of the allocation.
\<close>

theorem allocationIsValid_table:
  "allocationIsValid e a preferCache =
     (if isTunnelAddress a then knode a \<noteq> []
      else if attr a AttributeNamespace = [] \<or> attr a AttributePod = [] then True
      else
        (case getPod e preferCache (attr a AttributeNamespace) (attr a AttributePod) of
           Inl err \<Rightarrow> err \<noteq> ErrorNotFound
         | Inr p \<Rightarrow>
             if podSpecNodeName p \<noteq> [] \<and> knode a \<noteq> [] \<and> podSpecNodeName p \<noteq> knode a
             then False
             else if podStatusPodIP p = [] \<or> podStatusPodIPs p = [] then True
             else if podStatusPhase p = PodFailed \<and> podStatusReason p = ''Evicted'' then False
             else
               (case PodToWorkloadEndpoints e p of
                  Inl err \<Rightarrow> True
                | Inr kvps \<Rightarrow>
                    (\<exists>nw. nw \<in> endpointNetworks e p \<and>
                       (ParseCIDR e nw = None \<or> ParseIP e (ip a) = None
                          \<or> ParseIP e (ip a) = ParseCIDR e nw)))))"
proof (cases "getPod e preferCache (attr a AttributeNamespace) (attr a AttributePod)")
  case (Inl err)
  then show ?thesis by (simp add: allocationIsValid_def Let_def)
next
  case (Inr p)
  show ?thesis
  proof (cases "PodToWorkloadEndpoints e p")
    case (Inl err)
    with Inr show ?thesis by (simp add: allocationIsValid_def Let_def)
  next
    case (Inr kvps)
    with \<open>getPod e preferCache (attr a AttributeNamespace) (attr a AttributePod) = Inr p\<close>
    show ?thesis
      by (simp add: allocationIsValid_def Let_def scanEndpoints_networks [OF Inr])
  qed
qed

theorem allocationIsValid_table_witness:
  "allocationIsValid envConvFails alloc1 True \<and>
   allocationIsValid (env0\<lparr>podLister_Get := (\<lambda>ns p. Inr pod1)\<rparr>) alloc1 True = False"
proof -
  have valid: "allocationIsValid envConvFails alloc1 True"
    by (subst allocationIsValid_table)
       (simp add: envConvFails_def env0_def alloc1_def pod1_def getPod_def isTunnelAddress_def
          attr_def AttributeNamespace_def AttributePod_def AttributeType_def PodFailed_def)
  have invalid: "\<not> allocationIsValid (env0\<lparr>podLister_Get := (\<lambda>ns p. Inr pod1)\<rparr>) alloc1 True"
    by (subst allocationIsValid_table)
       (simp add: env0_def alloc1_def pod1_def getPod_def isTunnelAddress_def
          attr_def AttributeNamespace_def AttributePod_def AttributeType_def PodFailed_def
          endpointNetworks_def)
  from valid invalid show ?thesis by simp
qed

theorem allocationIsValid_spec_counterexample:
  "allocationIsValid envConvFails alloc1 True \<noteq> allocationIsValid_spec envConvFails alloc1 True"
  by (simp add: allocationIsValid_def allocationIsValid_spec_def envConvFails_def env0_def
        alloc1_def pod1_def getPod_def isTunnelAddress_def attr_def AttributeNamespace_def
        AttributePod_def AttributeType_def PodFailed_def endpointNetworks_def)

subsection \<open>checkAllocations\<close>

lemma checkAllocations_err: "snd (snd (checkAllocations e c)) = None"
  by (simp add: checkAllocations_def Let_def split: prod.splits)

lemma checkNode_skip:
  "kubernetesNodeForCalico e c cnode = Inl err \<Longrightarrow>
   checkNode e (cnode, allocations) (c, nodesToRelease) = (c, nodesToRelease)"
  by (simp add: checkNode_def)

text \<open>
  C10. \<^verbatim>\<open>checkAllocations\<close> always returns a nil error: a node whose Kubernetes name
  cannot be resolved, whatever the error, is skipped (the controller and the nodes to
  release are left as they were), and so \<^verbatim>\<open>syncIPAM\<close>, once past its readiness gate,
  always goes on to the steps after the scan.
\<close>

theorem checkAllocations_never_fails:
  "snd (snd (checkAllocations e c)) = None \<and>
   (kubernetesNodeForCalico e c' cnode = Inl err \<longrightarrow>
      checkNode e (cnode, allocations) (c', nodesToRelease) = (c', nodesToRelease)) \<and>
   (datastoreReady c \<and> syncStatus_of c = InSync \<longrightarrow>
      syncIPAM e c =
        syncAfterScan e (fst (snd (checkAllocations e c))) (fst (checkAllocations e c)))"
proof -
  obtain c1 ns er where scan: "checkAllocations e c = (c1, ns, er)"
    by (cases "checkAllocations e c") auto
  with checkAllocations_err [of e c] have "er = None" by simp
  with scan show ?thesis
    by (simp add: checkNode_skip checkAllocations_err syncIPAM_def syncAfterScan_def)
qed

theorem checkAllocations_never_fails_witness:
  "kubernetesNodeForCalico envNodeLookupFails ctlInSync ''n1'' = Inl (ErrorOther ''timeout'') \<and>
   checkNode envNodeLookupFails (''n1'', []) (ctlInSync, []) = (ctlInSync, []) \<and>
   datastoreReady ctlInSync \<and> syncStatus_of ctlInSync = InSync \<and>
   syncIPAM envNodeLookupFails ctlInSync =
     syncAfterScan envNodeLookupFails (fst (snd (checkAllocations envNodeLookupFails ctlInSync)))
       (fst (checkAllocations envNodeLookupFails ctlInSync))"
proof -
  have k: "kubernetesNodeForCalico envNodeLookupFails ctlInSync ''n1'' = Inl (ErrorOther ''timeout'')"
    by (simp add: kubernetesNodeForCalico_def envNodeLookupFails_def env0_def ctlInSync_def
          NewIPAMController_def)
  have g: "datastoreReady ctlInSync \<and> syncStatus_of ctlInSync = InSync"
    by (simp add: ctlInSync_def NewIPAMController_def)
  from k g checkAllocations_never_fails
         [of envNodeLookupFails ctlInSync ctlInSync "''n1''" "ErrorOther ''timeout''" "[]" "[]"]
  show ?thesis by simp
qed

subsection \<open>What the phases of a sync leave alone\<close>

lemma fold_invariant:
  assumes "\<And>x s. P s \<Longrightarrow> P (f x s)" and "P s"
  shows "P (fold f xs s)"
  using assms(2) by (induction xs arbitrary: s) (auto intro: assms(1))

lemma checkAllocation_loopControl:
  "loopControl (fst (checkAllocation e kn ex entry acc)) = loopControl (fst acc)"
  by (cases acc)
     (simp add: checkAllocation_def Let_def setAlloc_def indexLeak_def loopControl_def
           split: option.splits)

lemma markTunnel_loopControl: "loopControl (markTunnel p c) = loopControl c"
  by (simp add: markTunnel_def Let_def setAlloc_def loopControl_def)

lemma checkNode_loopControl:
  "loopControl (fst (checkNode e entry acc)) = loopControl (fst acc)"
proof (cases entry; cases acc)
  fix cnode allocations c ns
  assume entry: "entry = (cnode, allocations)" and acc: "acc = (c, ns)"
  show ?thesis
  proof (cases "kubernetesNodeForCalico e c cnode")
    case (Inl err)
    then show ?thesis by (simp add: entry acc checkNode_def)
  next
    case (Inr kn)
    obtain c1 cd ts where scan:
      "fold (checkAllocation e kn (kn \<noteq> [] \<and> nodeExists e kn)) allocations (c, True, []) = (c1, cd, ts)"
      by (cases "fold (checkAllocation e kn (kn \<noteq> [] \<and> nodeExists e kn)) allocations (c, True, [])") auto
    have "loopControl (fst (fold (checkAllocation e kn (kn \<noteq> [] \<and> nodeExists e kn)) allocations (c, True, [])))
            = loopControl c"
      by (rule fold_invariant [where P = "\<lambda>s. loopControl (fst s) = loopControl c"])
         (simp_all add: checkAllocation_loopControl)
    with scan have c1: "loopControl c1 = loopControl c" by simp
    have "loopControl (fold markTunnel ts c1) = loopControl c1"
      by (rule fold_invariant [where P = "\<lambda>s. loopControl s = loopControl c1"])
         (simp_all add: markTunnel_loopControl)
    with c1 scan Inr show ?thesis
      by (simp add: entry acc checkNode_def Let_def)
  qed
qed

lemma checkNodes_loopControl:
  "loopControl (fst (fold (checkNode e) xs acc)) = loopControl (fst acc)"
  by (rule fold_invariant [where P = "\<lambda>s. loopControl (fst s) = loopControl (fst acc)"])
     (simp_all add: checkNode_loopControl)

lemma checkAllocations_loopControl:
  "loopControl (fst (checkAllocations e c)) = loopControl c"
proof -
  define c1 where "c1 = (if fullSyncRequired c then c\<lparr>fullSyncRequired := False\<rparr> else c)"
  obtain c2 ns where scan: "fold (checkNode e) (nodesToCheck c) (c1, []) = (c2, ns)"
    by (cases "fold (checkNode e) (nodesToCheck c) (c1, [])") auto
  from checkNodes_loopControl [of e "nodesToCheck c" "(c1, [])"] scan
  have "loopControl c2 = loopControl c1" by simp
  moreover have "loopControl c1 = loopControl c" by (simp add: c1_def loopControl_def)
  moreover have "checkAllocations e c = (c2, ns, None)"
    using scan by (simp add: checkAllocations_def Let_def c1_def)
  ultimately show ?thesis by simp
qed

lemma gcCollect_loopControl:
  "loopControl (fst (gcCollect e xs acc)) = loopControl (fst acc)"
  by (induction e xs acc rule: gcCollect.induct)
     (simp_all add: Let_def setAlloc_def loopControl_def)

lemma incrementReclamationMetric_loopControl:
  "loopControl (incrementReclamationMetric b n c) = loopControl c"
  by (simp add: incrementReclamationMetric_def Let_def loopControl_def split: option.splits)

lemma markReleased_loopControl: "loopControl (markReleased a c) = loopControl c"
  using incrementReclamationMetric_loopControl
          [of "block a" "node a" "c\<lparr>allocState := release a (allocState c)\<rparr>"]
  by (simp add: markReleased_def Let_def loopControl_def)

lemma gcReleased_loopControl:
  "loopControl (fst (gcReleased opts acc)) = loopControl (fst acc)"
proof (induction opts acc rule: gcReleased.induct)
  case (1 acc)
  show ?case by simp
next
  case (2 opt rest c leaks)
  show ?case
  proof (cases "map_of leaks (Address opt)")
    case None
    then show ?thesis by (simp add: loopControl_def)
  next
    case (Some p)
    with 2 [OF Some] show ?thesis by (simp add: markReleased_loopControl)
  qed
qed

lemma garbageCollectKnownLeaks_loopControl:
  "loopControl (fst (garbageCollectKnownLeaks e c)) = loopControl c"
proof -
  obtain c1 opts leaks where col: "gcCollect e (confirmedLeaks c) (c, [], []) = (c1, opts, leaks)"
    by (cases "gcCollect e (confirmedLeaks c) (c, [], [])") auto
  from gcCollect_loopControl [of e "confirmedLeaks c" "(c, [], [])"] col
  have c1: "loopControl c1 = loopControl c" by simp
  obtain rel err where ipam: "IPAM_ReleaseIPs e opts = (rel, err)"
    by (cases "IPAM_ReleaseIPs e opts") auto
  obtain c3 leaks' where rl:
    "gcReleased rel (c1\<lparr>ipamCalls := ipamCalls c1 @ [ReleaseIPsCall opts]\<rparr>, leaks) = (c3, leaks')"
    by (cases "gcReleased rel (c1\<lparr>ipamCalls := ipamCalls c1 @ [ReleaseIPsCall opts]\<rparr>, leaks)") auto
  from gcReleased_loopControl
         [of rel "(c1\<lparr>ipamCalls := ipamCalls c1 @ [ReleaseIPsCall opts]\<rparr>, leaks)"] rl c1
  have c3: "loopControl c3 = loopControl c" by (simp add: loopControl_def)
  show ?thesis
    using col ipam rl c1 c3
    by (simp add: garbageCollectKnownLeaks_def Let_def split: option.splits)
qed

lemma releaseUnusedBlock_loopControl:
  "loopControl (releaseUnusedBlock e entry c) = loopControl c"
  by (cases entry)
     (simp add: releaseUnusedBlock_def Let_def loopControl_def
           split: sum.splits prod.splits option.splits)

lemma releaseUnusedBlocks_loopControl:
  "loopControl (fst (releaseUnusedBlocks e c)) = loopControl c"
  unfolding releaseUnusedBlocks_def fst_conv
  by (rule fold_invariant [where P = "\<lambda>s. loopControl s = loopControl c"])
     (simp_all add: releaseUnusedBlock_loopControl)

lemma cleanupNode_loopControl:
  "loopControl (fst (cleanupNode e n c)) = loopControl c"
  by (simp add: cleanupNode_def Let_def clearReclaimedIPCountForNode_def loopControl_def
           split: option.splits)

lemma releaseNodes_loopControl:
  "loopControl (fst (releaseNodes e ns c)) = loopControl c"
  unfolding releaseNodes_def
proof (rule fold_invariant [where P = "\<lambda>s. loopControl (fst s) = loopControl c"])
  fix x and s :: "controller \<times> error option"
  assume "loopControl (fst s) = loopControl c"
  with cleanupNode_loopControl [of e x "fst s"]
  show "loopControl (fst ((case s of (c', storedErr) \<Rightarrow>
            case cleanupNode e x c' of (c'', Some err) \<Rightarrow> (c'', Some err)
            | (c'', None) \<Rightarrow> (c'', storedErr)))) = loopControl c"
    by (cases s) (auto split: prod.splits option.splits)
qed simp

lemma releaseUnusedBlocks_err: "snd (releaseUnusedBlocks e c) = None"
  by (simp add: releaseUnusedBlocks_def)

lemma syncAfterScan_retries:
  "retries (fst (syncAfterScan e ns c)) = retries c"
proof -
  obtain c2 err2 where gc: "garbageCollectKnownLeaks e c = (c2, err2)"
    by (cases "garbageCollectKnownLeaks e c") auto
  obtain c3 err3 where rb: "releaseUnusedBlocks e c2 = (c3, err3)"
    by (cases "releaseUnusedBlocks e c2") auto
  obtain c4 err4 where rn: "releaseNodes e ns c3 = (c4, err4)"
    by (cases "releaseNodes e ns c3") auto
  from garbageCollectKnownLeaks_loopControl [of e c] gc
  have c2: "retries c2 = retries c" by (simp add: loopControl_def)
  from releaseUnusedBlocks_loopControl [of e c2] rb
  have c3: "retries c3 = retries c2" by (simp add: loopControl_def)
  from releaseNodes_loopControl [of e ns c3] rn
  have c4: "retries c4 = retries c3" by (simp add: loopControl_def)
  from releaseUnusedBlocks_err [of e c2] rb have err3: "err3 = None" by simp
  show ?thesis
  proof (cases "crashed c2")
    case True
    with gc c2 show ?thesis by (simp add: syncAfterScan_def)
  next
    case False
    show ?thesis
    proof (cases err2)
      case (Some er)
      with False gc c2 show ?thesis by (simp add: syncAfterScan_def)
    next
      case None
      show ?thesis
      proof (cases err4)
        case (Some er)
        with None False gc rb rn err3 c2 c3 c4 show ?thesis by (simp add: syncAfterScan_def)
      next
        case None
        with \<open>err2 = None\<close> False gc rb rn err3 c2 c3 c4 show ?thesis
          by (simp add: syncAfterScan_def Let_def kick_def)
      qed
    qed
  qed
qed

lemma syncIPAM_retries: "retries (fst (syncIPAM e c)) = retries c"
proof (cases "datastoreReady c \<and> syncStatus_of c = InSync")
  case True
  obtain c1 ns er where scan: "checkAllocations e c = (c1, ns, er)"
    by (cases "checkAllocations e c") auto
  with checkAllocations_err [of e c] have er: "er = None" by simp
  from checkAllocations_loopControl [of e c] scan have "retries c1 = retries c"
    by (simp add: loopControl_def)
  with syncAfterScan_retries [of e ns c1] scan er True show ?thesis
    by (simp add: syncIPAM_def syncAfterScan_def)
next
  case False
  then show ?thesis by (auto simp: syncIPAM_def)
qed

subsection \<open>Retries\<close>

lemmas sync_defs = syncIPAM_def checkAllocations_def nodesToCheck_def checkNode_def
  kubernetesNodeForCalico_def nodeExists_def garbageCollectKnownLeaks_def releaseUnusedBlocks_def
  releaseNodes_def cleanupNode_def clearReclaimedIPCountForNode_def syncComplete_def kick_def
  Let_def

lemmas orphan_defs = envReleaseFails_def env0_def ctlOrphan_def ctlInSync_def NewIPAMController_def

text \<open>
  C7, as amended. On the path of the main loop that a kick of the sync channel triggers,
  the retry controller's \<^verbatim>\<open>ScheduleRetry\<close> is invoked whenever \<^verbatim>\<open>syncIPAM\<close> returns an
  error (so a retry is pending) and its \<^verbatim>\<open>Success\<close> whenever \<^verbatim>\<open>syncIPAM\<close> returns nil
  (so the backoff is cleared). On the path of the periodic ticker neither is invoked: the
  state of the retry controller is the same after the tick as before, whatever
  \<^verbatim>\<open>syncIPAM\<close> returns.
\<close>

theorem retry_only_on_triggered_sync:
  "\<not> crashed c \<longrightarrow>
     (syncChan c \<and> \<not> crashed (fst (syncIPAM e (c\<lparr>syncChan := False\<rparr>))) \<longrightarrow>
        retries (acceptScheduleRequests_step e SyncChanReceive c) =
          (case snd (syncIPAM e (c\<lparr>syncChan := False\<rparr>)) of
             Some er \<Rightarrow> ScheduleRetry (retries c)
           | None \<Rightarrow> Success (retries c)) \<and>
        (snd (syncIPAM e (c\<lparr>syncChan := False\<rparr>)) \<noteq> None \<longrightarrow>
           retryPending (retries (acceptScheduleRequests_step e SyncChanReceive c))) \<and>
        (snd (syncIPAM e (c\<lparr>syncChan := False\<rparr>)) = None \<longrightarrow>
           retryFailures (retries (acceptScheduleRequests_step e SyncChanReceive c)) = 0)) \<and>
     retries (acceptScheduleRequests_step e Tick c) = retries c"
proof (intro impI conjI)
  assume nc: "\<not> crashed c"
  show "retries (acceptScheduleRequests_step e Tick c) = retries c"
    using nc syncIPAM_retries [of e "fullScanNextSync c"]
    by (simp add: acceptScheduleRequests_step_def fullScanNextSync_def)
next
  assume nc: "\<not> crashed c"
    and trig: "syncChan c \<and> \<not> crashed (fst (syncIPAM e (c\<lparr>syncChan := False\<rparr>)))"
  obtain c1 err where sync: "syncIPAM e (c\<lparr>syncChan := False\<rparr>) = (c1, err)"
    by (cases "syncIPAM e (c\<lparr>syncChan := False\<rparr>)") auto
  from syncIPAM_retries [of e "c\<lparr>syncChan := False\<rparr>"] sync
  have r: "retries c1 = retries c" by simp
  from nc trig sync r
  show "retries (acceptScheduleRequests_step e SyncChanReceive c) =
          (case snd (syncIPAM e (c\<lparr>syncChan := False\<rparr>)) of
             Some er \<Rightarrow> ScheduleRetry (retries c)
           | None \<Rightarrow> Success (retries c))"
    by (simp add: acceptScheduleRequests_step_def split: option.splits)
  {
    assume "snd (syncIPAM e (c\<lparr>syncChan := False\<rparr>)) \<noteq> None"
    with nc trig sync r
    show "retryPending (retries (acceptScheduleRequests_step e SyncChanReceive c))"
      by (auto simp: acceptScheduleRequests_step_def ScheduleRetry_def)
  }
  {
    assume "snd (syncIPAM e (c\<lparr>syncChan := False\<rparr>)) = None"
    with nc trig sync r
    show "retryFailures (retries (acceptScheduleRequests_step e SyncChanReceive c)) = 0"
      by (auto simp: acceptScheduleRequests_step_def Success_def)
  }
qed

theorem retry_only_on_triggered_sync_witness:
  "\<not> crashed (kick ctlOrphan) \<and> syncChan (kick ctlOrphan) \<and>
   snd (syncIPAM envReleaseFails ((kick ctlOrphan)\<lparr>syncChan := False\<rparr>)) \<noteq> None \<and>
   retryPending (retries (acceptScheduleRequests_step envReleaseFails SyncChanReceive (kick ctlOrphan))) \<and>
   retries (acceptScheduleRequests_step envReleaseFails Tick (kick ctlOrphan)) = retries (kick ctlOrphan)"
proof -
  have nc: "\<not> crashed (kick ctlOrphan)" and k: "syncChan (kick ctlOrphan)"
    by (simp_all add: kick_def orphan_defs)
  have err: "snd (syncIPAM envReleaseFails ((kick ctlOrphan)\<lparr>syncChan := False\<rparr>)) \<noteq> None"
    by (simp add: sync_defs orphan_defs)
  have ok: "\<not> crashed (fst (syncIPAM envReleaseFails ((kick ctlOrphan)\<lparr>syncChan := False\<rparr>)))"
    by (simp add: sync_defs orphan_defs)
  from retry_only_on_triggered_sync [of "kick ctlOrphan" envReleaseFails] nc k err ok
  show ?thesis by blast
qed

theorem periodic_sync_schedules_no_retry_counterexample:
  "snd (syncIPAM envReleaseFails (fullScanNextSync ctlOrphan)) \<noteq> None \<and>
   \<not> retryPending (retries (acceptScheduleRequests_step envReleaseFails Tick ctlOrphan))"
proof -
  have "snd (syncIPAM envReleaseFails (fullScanNextSync ctlOrphan)) \<noteq> None"
    by (simp add: fullScanNextSync_def sync_defs orphan_defs)
  moreover have "retries (acceptScheduleRequests_step envReleaseFails Tick ctlOrphan) = retries ctlOrphan"
    using syncIPAM_retries [of envReleaseFails "fullScanNextSync ctlOrphan"]
    by (simp add: acceptScheduleRequests_step_def fullScanNextSync_def orphan_defs)
  moreover have "\<not> retryPending (retries ctlOrphan)"
    by (simp add: orphan_defs)
  ultimately show ?thesis by simp
qed

subsection \<open>Syncer updates and the sync status\<close>

lemma fold_commute_update:
  assumes "\<And>x s. f x (g s) = g (f x s)"
  shows "fold f xs (g s) = g (fold f xs s)"
  by (induction xs arbitrary: s) (simp_all add: assms)











lemma blockEmptiness_allocationsByBlock:
  "allocationsByBlock (blockEmptiness cidr n num c) = allocationsByBlock c"
  by (simp add: blockEmptiness_def Let_def)








subsection \<open>The batch of garbageCollectKnownLeaks\<close>





lemma resurrectedFrom_handle:
  assumes "resurrectedFrom c0 c" and "handleIsConfirmedLeak c h"
  shows "handleIsConfirmedLeak c0 h"
  using assms
  by (auto simp: resurrectedFrom_def handleIsConfirmedLeak_def list_all_iff)

lemma gcCollect_length:
  "length opts < maxBatchSize \<Longrightarrow> length (fst (snd (gcCollect e xs (c, opts, leaks)))) \<le> maxBatchSize"
proof (induction xs arbitrary: c opts leaks)
  case Nil
  then show ?case by simp
next
  case (Cons x xs)
  obtain i p where x: "x = (i, p)" by (cases x) auto
  show ?case
    using Cons.prems Cons.IH [of opts] Cons.IH [of "opts @ [ReleaseOptions (heap c p)]"]
    by (simp add: x Let_def)
qed

lemma gcCollect_ipamCalls:
  "ipamCalls (fst (gcCollect e xs acc)) = ipamCalls (fst acc)"
  by (induction e xs acc rule: gcCollect.induct) (simp_all add: Let_def setAlloc_def)

lemma incrementReclamationMetric_ipamCalls:
  "ipamCalls (incrementReclamationMetric b n c) = ipamCalls c"
  by (simp add: incrementReclamationMetric_def Let_def split: option.splits)

lemma markReleased_ipamCalls: "ipamCalls (markReleased a c) = ipamCalls c"
  by (simp add: markReleased_def Let_def incrementReclamationMetric_ipamCalls)

lemma gcReleased_ipamCalls:
  "ipamCalls (fst (gcReleased opts acc)) = ipamCalls (fst acc)"
proof (induction opts acc rule: gcReleased.induct)
  case (1 acc)
  show ?case by simp
next
  case (2 opt rest c leaks)
  show ?case
  proof (cases "map_of leaks (Address opt)")
    case None
    then show ?thesis by simp
  next
    case (Some p)
    with 2 [OF Some] show ?thesis by (simp add: markReleased_ipamCalls)
  qed
qed

lemma garbageCollectKnownLeaks_ipamCalls:
  "ipamCalls (fst (garbageCollectKnownLeaks e c)) =
     ipamCalls c @ (if gcBatch e c = [] then [] else [ReleaseIPsCall (gcBatch e c)])"
proof -
  obtain c1 opts leaks where col: "gcCollect e (confirmedLeaks c) (c, [], []) = (c1, opts, leaks)"
    by (cases "gcCollect e (confirmedLeaks c) (c, [], [])") auto
  then have batch: "gcBatch e c = opts" by (simp add: gcBatch_def)
  from gcCollect_ipamCalls [of e "confirmedLeaks c" "(c, [], [])"] col
  have c1: "ipamCalls c1 = ipamCalls c" by simp
  obtain rel err where ipam: "IPAM_ReleaseIPs e opts = (rel, err)"
    by (cases "IPAM_ReleaseIPs e opts") auto
  obtain c3 leaks' where rl:
    "gcReleased rel (c1\<lparr>ipamCalls := ipamCalls c1 @ [ReleaseIPsCall opts]\<rparr>, leaks) = (c3, leaks')"
    by (cases "gcReleased rel (c1\<lparr>ipamCalls := ipamCalls c1 @ [ReleaseIPsCall opts]\<rparr>, leaks)") auto
  from gcReleased_ipamCalls
         [of rel "(c1\<lparr>ipamCalls := ipamCalls c1 @ [ReleaseIPsCall opts]\<rparr>, leaks)"] rl c1
  have c3: "ipamCalls c3 = ipamCalls c @ [ReleaseIPsCall opts]" by simp
  show ?thesis
  proof (cases "opts = []")
    case True
    with col batch c1 show ?thesis by (simp add: garbageCollectKnownLeaks_def)
  next
    case False
    with col batch ipam rl c3 show ?thesis
      by (simp add: garbageCollectKnownLeaks_def Let_def split: option.splits)
  qed
qed

lemmas alloc_defs = alloc1_def alloc2_def id_of_def attr_def node_def isTunnelAddress_def isPodIP_def
  AttributeNamespace_def AttributePod_def AttributeNode_def AttributeType_def ReleaseOptions_def
  isConfirmedLeak_def

lemmas twoLeaks_defs = ctlTwoLeaks_def ctlInSync_def NewIPAMController_def

lemma twoLeaks_batch:
  "gcBatch env0 ctlTwoLeaks = [ReleaseOptions alloc1, ReleaseOptions alloc2]"
  by (simp add: gcBatch_def twoLeaks_defs env0_def alloc_defs allocationIsValid_def getPod_def
        handleIsConfirmedLeak_def maxBatchSize_def Let_def)

subsection \<open>The kick at the end of syncIPAM\<close>

lemma syncAfterScan_syncChan:
  "snd (syncAfterScan e ns c) \<noteq> None \<longrightarrow> syncChan (fst (syncAfterScan e ns c)) = syncChan c"
  "snd (syncAfterScan e ns c) = None \<and> \<not> crashed (fst (syncAfterScan e ns c)) \<longrightarrow>
     syncChan (fst (syncAfterScan e ns c))
       = (syncChan c \<or> confirmedLeaks (fst (syncAfterScan e ns c)) \<noteq> [])"
proof -
  obtain c2 err2 where gc: "garbageCollectKnownLeaks e c = (c2, err2)"
    by (cases "garbageCollectKnownLeaks e c") auto
  obtain c3 err3 where rb: "releaseUnusedBlocks e c2 = (c3, err3)"
    by (cases "releaseUnusedBlocks e c2") auto
  obtain c4 err4 where rn: "releaseNodes e ns c3 = (c4, err4)"
    by (cases "releaseNodes e ns c3") auto
  from garbageCollectKnownLeaks_loopControl [of e c] gc
  have c2: "syncChan c2 = syncChan c" by (simp add: loopControl_def)
  from releaseUnusedBlocks_loopControl [of e c2] rb
  have c3: "syncChan c3 = syncChan c2" by (simp add: loopControl_def)
  from releaseNodes_loopControl [of e ns c3] rn
  have c4: "syncChan c4 = syncChan c3" by (simp add: loopControl_def)
  from releaseUnusedBlocks_err [of e c2] rb have err3: "err3 = None" by simp
  have both:
    "(snd (syncAfterScan e ns c) \<noteq> None \<longrightarrow> syncChan (fst (syncAfterScan e ns c)) = syncChan c) \<and>
     (snd (syncAfterScan e ns c) = None \<and> \<not> crashed (fst (syncAfterScan e ns c)) \<longrightarrow>
        syncChan (fst (syncAfterScan e ns c))
          = (syncChan c \<or> confirmedLeaks (fst (syncAfterScan e ns c)) \<noteq> []))"
  proof (cases "crashed c2")
    case True
    with gc c2 show ?thesis by (simp add: syncAfterScan_def)
  next
    case False
    show ?thesis
    proof (cases err2)
      case (Some er)
      with False gc c2 show ?thesis by (simp add: syncAfterScan_def)
    next
      case None
      show ?thesis
      proof (cases err4)
        case (Some er)
        with None False gc rb rn err3 c2 c3 c4 show ?thesis by (simp add: syncAfterScan_def)
      next
        case None
        with \<open>err2 = None\<close> False gc rb rn err3 c2 c3 c4 show ?thesis
          by (simp add: syncAfterScan_def Let_def kick_def)
      qed
    qed
  qed
  from both show "snd (syncAfterScan e ns c) \<noteq> None \<longrightarrow>
                    syncChan (fst (syncAfterScan e ns c)) = syncChan c" by blast
  from both show "snd (syncAfterScan e ns c) = None \<and> \<not> crashed (fst (syncAfterScan e ns c)) \<longrightarrow>
     syncChan (fst (syncAfterScan e ns c))
       = (syncChan c \<or> confirmedLeaks (fst (syncAfterScan e ns c)) \<noteq> [])" by blast
qed

lemma syncIPAM_open:
  assumes "datastoreReady c" and "syncStatus_of c = InSync"
  shows "syncIPAM e c =
           syncAfterScan e (fst (snd (checkAllocations e c))) (fst (checkAllocations e c))"
proof -
  obtain c1 ns er where scan: "checkAllocations e c = (c1, ns, er)"
    by (cases "checkAllocations e c") auto
  with checkAllocations_err [of e c] have "er = None" by simp
  with scan assms show ?thesis by (simp add: syncIPAM_def syncAfterScan_def)
qed

text \<open>
  C5, as amended. \<^verbatim>\<open>garbageCollectKnownLeaks\<close> calls \<^verbatim>\<open>ReleaseIPs\<close> at most once and
  with at most 10,000 options. When \<^verbatim>\<open>syncIPAM\<close> passes its readiness gate and runs
  through all its steps without an error, it kicks the sync channel exactly if confirmed
  leaks remain in the index at its end (so the channel then holds a kick if it held one
  before or leaks remain). When a step fails, \<^verbatim>\<open>syncIPAM\<close> returns the error without
  kicking the channel, also if confirmed leaks remain; when the gate is closed it does
  nothing.
\<close>

theorem batch_cap_and_self_kick:
  "ipamCalls (fst (garbageCollectKnownLeaks e c)) =
     ipamCalls c @ (if gcBatch e c = [] then [] else [ReleaseIPsCall (gcBatch e c)]) \<and>
   length (gcBatch e c) \<le> 10000 \<and>
   (datastoreReady c \<and> syncStatus_of c = InSync \<and> snd (syncIPAM e c) = None \<and>
    \<not> crashed (fst (syncIPAM e c)) \<longrightarrow>
      syncChan (fst (syncIPAM e c)) = (syncChan c \<or> confirmedLeaks (fst (syncIPAM e c)) \<noteq> [])) \<and>
   (snd (syncIPAM e c) \<noteq> None \<longrightarrow> syncChan (fst (syncIPAM e c)) = syncChan c) \<and>
   (\<not> (datastoreReady c \<and> syncStatus_of c = InSync) \<longrightarrow> syncIPAM e c = (c, None))"
proof (intro conjI impI)
  show "ipamCalls (fst (garbageCollectKnownLeaks e c)) =
          ipamCalls c @ (if gcBatch e c = [] then [] else [ReleaseIPsCall (gcBatch e c)])"
    by (rule garbageCollectKnownLeaks_ipamCalls)
next
  show "length (gcBatch e c) \<le> 10000"
    using gcCollect_length [of "[]" e "confirmedLeaks c" c "[]"]
    by (simp add: gcBatch_def maxBatchSize_def)
next
  assume ok: "datastoreReady c \<and> syncStatus_of c = InSync \<and> snd (syncIPAM e c) = None \<and>
              \<not> crashed (fst (syncIPAM e c))"
  then have eq: "syncIPAM e c =
      syncAfterScan e (fst (snd (checkAllocations e c))) (fst (checkAllocations e c))"
    by (simp add: syncIPAM_open)
  from checkAllocations_loopControl [of e c]
  have "syncChan (fst (checkAllocations e c)) = syncChan c" by (simp add: loopControl_def)
  with ok syncAfterScan_syncChan(2)
         [of e "fst (snd (checkAllocations e c))" "fst (checkAllocations e c)"]
  show "syncChan (fst (syncIPAM e c)) = (syncChan c \<or> confirmedLeaks (fst (syncIPAM e c)) \<noteq> [])"
    unfolding eq by simp
next
  assume err: "snd (syncIPAM e c) \<noteq> None"
  then have gate: "datastoreReady c \<and> syncStatus_of c = InSync"
    by (auto simp: syncIPAM_def split: if_splits)
  then have eq: "syncIPAM e c =
      syncAfterScan e (fst (snd (checkAllocations e c))) (fst (checkAllocations e c))"
    by (simp add: syncIPAM_open)
  from checkAllocations_loopControl [of e c]
  have "syncChan (fst (checkAllocations e c)) = syncChan c" by (simp add: loopControl_def)
  with err syncAfterScan_syncChan(1)
         [of e "fst (snd (checkAllocations e c))" "fst (checkAllocations e c)"]
  show "syncChan (fst (syncIPAM e c)) = syncChan c"
    unfolding eq by simp
next
  assume "\<not> (datastoreReady c \<and> syncStatus_of c = InSync)"
  then show "syncIPAM e c = (c, None)" by (auto simp: syncIPAM_def)
qed

lemmas gc_defs = gcBatch_def allocationIsValid_def getPod_def handleIsConfirmedLeak_def
  maxBatchSize_def

lemma twoLeaks_sync_down:
  "snd (syncIPAM envIPAMDown ctlTwoLeaks) = Some (ErrorOther ''unavailable'')"
  "confirmedLeaks (fst (syncIPAM envIPAMDown ctlTwoLeaks)) = [(id_of alloc1, 0), (id_of alloc2, 1)]"
  "syncChan (fst (syncIPAM envIPAMDown ctlTwoLeaks)) = False"
  by (simp_all add: sync_defs gc_defs envIPAMDown_def env0_def twoLeaks_defs alloc_defs)

lemma twoLeaks_sync_first:
  "snd (syncIPAM envReleasesFirst ctlTwoLeaks) = None"
  "confirmedLeaks (fst (syncIPAM envReleasesFirst ctlTwoLeaks)) = [(id_of alloc2, 1)]"
  "\<not> crashed (fst (syncIPAM envReleasesFirst ctlTwoLeaks))"
  by (simp_all add: sync_defs gc_defs envReleasesFirst_def env0_def twoLeaks_defs alloc_defs
        incrementReclamationMetric_def markReleased_def release_def markDirty_def
        unknownPoolLabel_def)

theorem batch_cap_and_self_kick_witness:
  "snd (syncIPAM envReleasesFirst ctlTwoLeaks) = None \<and>
   confirmedLeaks (fst (syncIPAM envReleasesFirst ctlTwoLeaks)) \<noteq> [] \<and>
   syncChan (fst (syncIPAM envReleasesFirst ctlTwoLeaks)) \<and>
   snd (syncIPAM envIPAMDown ctlTwoLeaks) \<noteq> None \<and>
   syncChan (fst (syncIPAM envIPAMDown ctlTwoLeaks)) = syncChan ctlTwoLeaks \<and>
   length (gcBatch envIPAMDown ctlTwoLeaks) \<le> 10000"
proof -
  have gate: "datastoreReady ctlTwoLeaks \<and> syncStatus_of ctlTwoLeaks = InSync"
    by (simp add: twoLeaks_defs)
  from batch_cap_and_self_kick [of envReleasesFirst ctlTwoLeaks] gate twoLeaks_sync_first
  have "syncChan (fst (syncIPAM envReleasesFirst ctlTwoLeaks))" by simp
  with batch_cap_and_self_kick [of envIPAMDown ctlTwoLeaks] twoLeaks_sync_down(1)
       twoLeaks_sync_first
  show ?thesis by simp
qed

theorem no_kick_on_failed_sync_counterexample:
  "datastoreReady ctlTwoLeaks \<and> syncStatus_of ctlTwoLeaks = InSync \<and>
   confirmedLeaks (fst (syncIPAM envIPAMDown ctlTwoLeaks)) \<noteq> [] \<and>
   \<not> syncChan (fst (syncIPAM envIPAMDown ctlTwoLeaks))"
  using twoLeaks_sync_down by (simp add: twoLeaks_defs)

subsection \<open>releaseUnusedBlocks\<close>






subsection \<open>Allocations without a handle\<close>

lemma blockSlot_freeIfNoHandle:
  "blockSlot cidr (b\<lparr>Allocations := al\<rparr>) ord (freeIfNoHandle b slot) (c, num', cur) =
     (case blockSlot cidr b ord slot (c, num, cur) of
        (c', n', cur') \<Rightarrow>
          (c', (if crashed c' \<and> \<not> crashed c then Suc num'
                else if freeIfNoHandle b slot = None then num' else Suc num'), cur'))"
  by (cases slot)
     (auto simp: blockSlot_def freeIfNoHandle_def newAllocation_def Let_def split: option.splits)

lemma blockSlots_freeIfNoHandle:
  "fst (blockSlots cidr (b\<lparr>Allocations := al\<rparr>) ord (map (freeIfNoHandle b) slots) (c, num', cur))
     = fst (blockSlots cidr b ord slots (c, num, cur)) \<and>
   snd (snd (blockSlots cidr (b\<lparr>Allocations := al\<rparr>) ord (map (freeIfNoHandle b) slots) (c, num', cur)))
     = snd (snd (blockSlots cidr b ord slots (c, num, cur)))"
proof (induction slots arbitrary: ord c num num' cur)
  case Nil
  show ?case by simp
next
  case (Cons slot rest)
  obtain c1 n1 cur1 where step: "blockSlot cidr b ord slot (c, num, cur) = (c1, n1, cur1)"
    by (cases "blockSlot cidr b ord slot (c, num, cur)") auto
  from blockSlot_freeIfNoHandle
         [where cidr = cidr and b = b and al = al and ord = ord and slot = slot and c = c
            and num' = num' and cur = cur and num = num] step
  obtain m where step':
    "blockSlot cidr (b\<lparr>Allocations := al\<rparr>) ord (freeIfNoHandle b slot) (c, num', cur) = (c1, m, cur1)"
    by simp
  show ?case
    using step step' Cons.IH [where ord = "Suc ord" and c = c1 and num' = m and cur = cur1 and num = n1]
    by (simp add: Let_def)
qed

lemma removeReleased_withEmptiness:
  "removeReleased cidr cur entry (withEmptiness eb rt ab c) =
     withEmptiness eb rt ab (removeReleased cidr cur entry c)"
  by (cases entry) (simp add: removeReleased_def withEmptiness_def Let_def)

lemma removeAll_withEmptiness:
  "fold (removeReleased cidr cur) xs (withEmptiness eb rt ab c) =
     withEmptiness eb rt ab (fold (removeReleased cidr cur) xs c)"
  by (rule fold_commute_update) (rule removeReleased_withEmptiness)

lemma blockEmptiness_withEmptiness:
  "blockEmptiness cidr n num c =
     withEmptiness (emptyBlocks (blockEmptiness cidr n num c))
       (releaseTracker (blockEmptiness cidr n num c)) (allBlocks c) c"
  by (simp add: blockEmptiness_def withEmptiness_def Let_def)

lemma blockAffinity_freeIfNoHandle:
  "blockAffinity cidr (b\<lparr>Allocations := al\<rparr>) c = blockAffinity cidr b c"
  by (simp add: blockAffinity_def)

lemma onBlockUpdated_shape:
  assumes "Key kvp = BlockKey cidr" and "Value kvp = Some (BlockValue b)"
    and "blockAffinity cidr b c = (c1, n)"
    and "blockSlots cidr b 0 (Allocations b) (c1, 0, []) = (c2, num, cur)"
  shows "onBlockUpdated e kvp c =
           (if crashed c2 then c2
            else
              (let c4 = fold (removeReleased cidr cur) (allocationsByBlock c2 cidr) c2 in
               withEmptiness (emptyBlocks (blockEmptiness cidr n num c2))
                 (releaseTracker (blockEmptiness cidr n num c2))
                 ((allBlocks c2)(cidr \<mapsto> b))
                 (c4\<lparr>pools := poolOnBlockUpdated e cidr (pools c4)\<rparr>)))"
proof (cases "crashed c2")
  case True
  with assms show ?thesis by (simp add: onBlockUpdated_def)
next
  case False
  define c3 where "c3 = blockEmptiness cidr n num c2"
  define c4 where "c4 = fold (removeReleased cidr cur) (allocationsByBlock c2 cidr) c2"
  have c3: "c3 = withEmptiness (emptyBlocks c3) (releaseTracker c3) (allBlocks c2) c2"
    unfolding c3_def by (rule blockEmptiness_withEmptiness)
  have abb: "allocationsByBlock c3 cidr = allocationsByBlock c2 cidr"
    by (simp add: c3_def blockEmptiness_def Let_def)
  have "fold (removeReleased cidr cur) (allocationsByBlock c3 cidr) c3 =
          withEmptiness (emptyBlocks c3) (releaseTracker c3) (allBlocks c2) c4"
    unfolding abb c4_def by (subst c3) (rule removeAll_withEmptiness)
  with False assms show ?thesis
    by (simp add: onBlockUpdated_def Let_def c3_def [symmetric] c4_def [symmetric] withEmptiness_def)
qed

lemma onBlockUpdated_withoutHandleless:
  "onBlockUpdated e kvp c =
     withEmptiness (emptyBlocks (onBlockUpdated e kvp c)) (releaseTracker (onBlockUpdated e kvp c))
       (allBlocks (onBlockUpdated e kvp c)) (onBlockUpdated e (withoutHandleless kvp) c)"
proof (cases "\<exists>cidr b. Key kvp = BlockKey cidr \<and> Value kvp = Some (BlockValue b)")
  case False
  then have "onBlockUpdated e kvp c = c\<lparr>crashed := True\<rparr>"
    by (auto simp: onBlockUpdated_def split: kvKey.splits option.splits kvValue.splits)
  moreover from False have "onBlockUpdated e (withoutHandleless kvp) c = c\<lparr>crashed := True\<rparr>"
    by (auto simp: onBlockUpdated_def withoutHandleless_def
             split: kvKey.splits option.splits kvValue.splits)
  ultimately show ?thesis by (simp add: withEmptiness_def)
next
  case True
  then obtain cidr b where kv: "Key kvp = BlockKey cidr" "Value kvp = Some (BlockValue b)" by auto
  define b' where "b' = b\<lparr>Allocations := map (freeIfNoHandle b) (Allocations b)\<rparr>"
  from kv have kv': "Key (withoutHandleless kvp) = BlockKey cidr"
    "Value (withoutHandleless kvp) = Some (BlockValue b')"
    by (simp_all add: withoutHandleless_def b'_def)
  obtain c1 n where aff: "blockAffinity cidr b c = (c1, n)"
    by (cases "blockAffinity cidr b c") auto
  then have aff': "blockAffinity cidr b' c = (c1, n)"
    by (simp add: b'_def blockAffinity_freeIfNoHandle)
  obtain c2 num cur where slots: "blockSlots cidr b 0 (Allocations b) (c1, 0, []) = (c2, num, cur)"
    by (cases "blockSlots cidr b 0 (Allocations b) (c1, 0, [])") auto
  obtain c2' num' cur' where slots': "blockSlots cidr b' 0 (Allocations b') (c1, 0, []) = (c2', num', cur')"
    by (cases "blockSlots cidr b' 0 (Allocations b') (c1, 0, [])") auto
  from blockSlots_freeIfNoHandle
         [where cidr = cidr and b = b and al = "map (freeIfNoHandle b) (Allocations b)"
            and ord = 0 and slots = "Allocations b" and c = c1 and num' = 0 and cur = "[]"
            and num = 0]
       slots slots'
  have same: "c2' = c2" "cur' = cur" by (simp_all add: b'_def)
  show ?thesis
    unfolding onBlockUpdated_shape [OF kv aff slots]
              onBlockUpdated_shape [OF kv' aff' slots' [unfolded same]]
    by (simp add: withEmptiness_def Let_def)
qed


lemma handleIsConfirmedLeak_withEmptiness:
  "handleIsConfirmedLeak (withEmptiness eb rt ab c) h = handleIsConfirmedLeak c h"
  by (simp add: handleIsConfirmedLeak_def withEmptiness_def)

lemma gcCollect_withEmptiness:
  "gcCollect e xs (withEmptiness eb rt ab c, opts, leaks) =
     (case gcCollect e xs (c, opts, leaks) of
        (c', opts', leaks') \<Rightarrow> (withEmptiness eb rt ab c', opts', leaks'))"
proof (induction xs arbitrary: c opts leaks)
  case Nil
  show ?case by simp
next
  case (Cons x xs)
  obtain i p where x: "x = (i, p)" by (cases x) auto
  have h: "heap (withEmptiness eb rt ab c) = heap c"
    and cl: "confirmedLeaks (withEmptiness eb rt ab c) = confirmedLeaks c"
    by (simp_all add: withEmptiness_def)
  have mv: "setAlloc p a (withEmptiness eb rt ab c\<lparr>confirmedLeaks := l\<rparr>)
              = withEmptiness eb rt ab (setAlloc p a (c\<lparr>confirmedLeaks := l\<rparr>))" for a l
    by (simp add: setAlloc_def withEmptiness_def)
  show ?case
    unfolding x gcCollect.simps h cl handleIsConfirmedLeak_withEmptiness mv Let_def
    by (simp add: Cons.IH)
qed

lemma gcBatch_withEmptiness: "gcBatch e (withEmptiness eb rt ab c) = gcBatch e c"
proof -
  have "confirmedLeaks (withEmptiness eb rt ab c) = confirmedLeaks c"
    by (simp add: withEmptiness_def)
  then show ?thesis
    by (simp add: gcBatch_def gcCollect_withEmptiness split: prod.splits)
qed

lemma blockSlot_num:
  "fst (snd (blockSlot cidr b ord slot (c, num, cur))) = num + (if slot = None then 0 else 1)"
  by (cases slot) (simp_all add: blockSlot_def Let_def split: option.splits)

lemma blockSlots_num:
  "\<not> crashed (fst (blockSlots cidr b ord slots (c, num, cur))) \<Longrightarrow>
   fst (snd (blockSlots cidr b ord slots (c, num, cur))) = num + length (filter (\<lambda>s. s \<noteq> None) slots)"
proof (induction slots arbitrary: ord c num cur)
  case Nil
  show ?case by simp
next
  case (Cons slot rest)
  obtain c1 n1 cur1 where step: "blockSlot cidr b ord slot (c, num, cur) = (c1, n1, cur1)"
    by (cases "blockSlot cidr b ord slot (c, num, cur)") auto
  with blockSlot_num [of cidr b ord slot c num cur]
  have n1: "n1 = num + (if slot = None then 0 else 1)" by simp
  from Cons.prems step have nc: "\<not> crashed c1"
    by (auto simp: Let_def split: if_splits)
  with Cons.prems step
  have "\<not> crashed (fst (blockSlots cidr b (Suc ord) rest (c1, n1, cur1)))"
    by (simp add: Let_def)
  from Cons.IH [OF this] step nc n1 show ?case by (simp add: Let_def)
qed

lemma removeAll_emptiness:
  "emptyBlocks (fold (removeReleased cidr cur) xs c) = emptyBlocks c \<and>
   releaseTracker (fold (removeReleased cidr cur) xs c) = releaseTracker c"
  by (rule fold_invariant
        [where P = "\<lambda>s. emptyBlocks s = emptyBlocks c \<and> releaseTracker s = releaseTracker c"])
     (auto simp: removeReleased_def Let_def)

lemma onBlockUpdated_counts_handleless:
  assumes "Key kvp = BlockKey cidr" and "Value kvp = Some (BlockValue b)"
    and "Affinity b = Some aff" and "hasHostPrefix aff" and "trimHostPrefix aff \<noteq> []"
    and "Some idx \<in> set (Allocations b)"
    and "\<not> crashed (onBlockUpdated e kvp c)"
  shows "map_of (emptyBlocks (onBlockUpdated e kvp c)) cidr = None \<and>
         blockStates (releaseTracker (onBlockUpdated e kvp c)) cidr = Some InUse"
proof -
  obtain c1 n where aff: "blockAffinity cidr b c = (c1, n)"
    by (cases "blockAffinity cidr b c") auto
  with assms(3,4) have n: "n = trimHostPrefix aff" by (auto simp: blockAffinity_def Let_def)
  obtain c2 num cur where slots: "blockSlots cidr b 0 (Allocations b) (c1, 0, []) = (c2, num, cur)"
    by (cases "blockSlots cidr b 0 (Allocations b) (c1, 0, [])") auto
  note shape = onBlockUpdated_shape [OF assms(1,2) aff slots, of e]
  from assms(7) shape have nc: "\<not> crashed c2" by (auto split: if_splits)
  from blockSlots_num [of cidr b 0 "Allocations b" c1 0 "[]"] slots nc
  have "num = length (filter (\<lambda>s. s \<noteq> None) (Allocations b))" by simp
  moreover from assms(6) have "filter (\<lambda>s. s \<noteq> None) (Allocations b) \<noteq> []"
    by (auto simp: filter_empty_conv)
  ultimately have num: "num \<noteq> 0" by simp
  from nc shape
  have "emptyBlocks (onBlockUpdated e kvp c) = emptyBlocks (blockEmptiness cidr n num c2)"
    and "releaseTracker (onBlockUpdated e kvp c) = releaseTracker (blockEmptiness cidr n num c2)"
    by (simp_all add: withEmptiness_def Let_def)
  with n num assms(5) show ?thesis
    by (simp add: blockEmptiness_def Let_def markInUse_def AList.delete_conv')
qed

text \<open>
  C9, as amended. An allocated slot whose attribute record has no primary handle
  produces no allocation entry: \<^verbatim>\<open>onBlockUpdated\<close> leaves every part of the controller
  (the heap of allocations, \<^verbatim>\<open>allocationsByBlock\<close>, the allocation state, the handle
  tracker, \<^verbatim>\<open>confirmedLeaks\<close> and all the rest) as it would if the slot were free, except
  \<^verbatim>\<open>emptyBlocks\<close>, the block release tracker and the raw block kept in \<^verbatim>\<open>allBlocks\<close>;
  so the batch that \<^verbatim>\<open>garbageCollectKnownLeaks\<close> would pass to \<^verbatim>\<open>ReleaseIPs\<close> is the
  same, and the address is never passed to it on account of that slot. The slot still
  counts as an allocation of the block: a block with a host affinity that has an
  allocated slot, with or without a handle, is not put into \<^verbatim>\<open>emptyBlocks\<close> and is
  marked in use.
\<close>

theorem handleless_slot_only_counts:
  "onBlockUpdated e kvp c =
     withEmptiness (emptyBlocks (onBlockUpdated e kvp c)) (releaseTracker (onBlockUpdated e kvp c))
       (allBlocks (onBlockUpdated e kvp c)) (onBlockUpdated e (withoutHandleless kvp) c) \<and>
   gcBatch e' (onBlockUpdated e kvp c) = gcBatch e' (onBlockUpdated e (withoutHandleless kvp) c) \<and>
   (Key kvp = BlockKey cidr \<and> Value kvp = Some (BlockValue b) \<and> Affinity b = Some aff \<and>
    hasHostPrefix aff \<and> trimHostPrefix aff \<noteq> [] \<and> Some idx \<in> set (Allocations b) \<and>
    \<not> crashed (onBlockUpdated e kvp c) \<longrightarrow>
      map_of (emptyBlocks (onBlockUpdated e kvp c)) cidr = None \<and>
      blockStates (releaseTracker (onBlockUpdated e kvp c)) cidr = Some InUse)"
proof (intro conjI impI)
  show eq: "onBlockUpdated e kvp c =
     withEmptiness (emptyBlocks (onBlockUpdated e kvp c)) (releaseTracker (onBlockUpdated e kvp c))
       (allBlocks (onBlockUpdated e kvp c)) (onBlockUpdated e (withoutHandleless kvp) c)"
    by (rule onBlockUpdated_withoutHandleless)
  show "gcBatch e' (onBlockUpdated e kvp c) = gcBatch e' (onBlockUpdated e (withoutHandleless kvp) c)"
    by (subst eq) (rule gcBatch_withEmptiness)
next
  assume a: "Key kvp = BlockKey cidr \<and> Value kvp = Some (BlockValue b) \<and> Affinity b = Some aff \<and>
    hasHostPrefix aff \<and> trimHostPrefix aff \<noteq> [] \<and> Some idx \<in> set (Allocations b) \<and>
    \<not> crashed (onBlockUpdated e kvp c)"
  then have "map_of (emptyBlocks (onBlockUpdated e kvp c)) cidr = None \<and>
         blockStates (releaseTracker (onBlockUpdated e kvp c)) cidr = Some InUse"
    by (intro onBlockUpdated_counts_handleless [of kvp cidr b aff idx e c]) simp_all
  then show "map_of (emptyBlocks (onBlockUpdated e kvp c)) cidr = None"
    and "blockStates (releaseTracker (onBlockUpdated e kvp c)) cidr = Some InUse"
    by simp_all
qed

lemmas block_defs = onBlockUpdated_def blockAffinity_def hasHostPrefix_def trimHostPrefix_def
  blockSlot_def blockEmptiness_def markInUse_def poolOnBlockUpdated_def poolOnBlockDeleted_def
  poolForBlock_def Let_def

lemma blockNoHandle_update:
  "map_of (emptyBlocks (onBlockUpdated env0 blockNoHandle ctlInSync)) ''10.2.0.0/26'' = None"
  "map_of (emptyBlocks (onBlockUpdated env0 (withoutHandleless blockNoHandle) ctlInSync)) ''10.2.0.0/26''
     = Some ''n1''"
  "\<not> crashed (onBlockUpdated env0 blockNoHandle ctlInSync)"
  by (simp_all add: block_defs blockNoHandle_def withoutHandleless_def freeIfNoHandle_def
        ctlInSync_def NewIPAMController_def env0_def)

theorem handleless_slot_only_counts_witness:
  "Some 0 \<in> set [Some (0::int)] \<and>
   \<not> crashed (onBlockUpdated env0 blockNoHandle ctlInSync) \<and>
   blockStates (releaseTracker (onBlockUpdated env0 blockNoHandle ctlInSync)) ''10.2.0.0/26''
     = Some InUse \<and>
   gcBatch env0 (onBlockUpdated env0 blockNoHandle ctlInSync)
     = gcBatch env0 (onBlockUpdated env0 (withoutHandleless blockNoHandle) ctlInSync)"
  using handleless_slot_only_counts
          [where e = env0 and e' = env0 and kvp = blockNoHandle and c = ctlInSync
             and cidr = "''10.2.0.0/26''" and aff = "''host:n1''" and idx = 0
             and b = "\<lparr>Affinity = Some ''host:n1'', Allocations = [Some 0],
                        Attributes = [\<lparr>AttrPrimary = None, AttrSecondary = Map.empty\<rparr>],
                        OrdinalToIP = (\<lambda>ord. ''10.2.0.0''),
                        GetSequenceNumberForOrdinal = (\<lambda>ord. 0)\<rparr>"]
        blockNoHandle_update(3)
  by (simp add: blockNoHandle_def hasHostPrefix_def trimHostPrefix_def)

theorem handleless_slot_changes_emptiness_counterexample:
  "map_of (emptyBlocks (onBlockUpdated env0 blockNoHandle ctlInSync)) ''10.2.0.0/26'' = None \<and>
   map_of (emptyBlocks (onBlockUpdated env0 (withoutHandleless blockNoHandle) ctlInSync)) ''10.2.0.0/26''
     = Some ''n1''"
  using blockNoHandle_update(1,2) by simp

subsection \<open>Partial release\<close>


lemma in_delete_iff: "(k', v') \<in> set (AList.delete k al) \<longleftrightarrow> (k', v') \<in> set al \<and> k' \<noteq> k"
  by (auto simp: AList.delete_eq)






lemma gcCollect_subset:
  "set (confirmedLeaks (fst (gcCollect e xs (c, opts, leaks)))) \<subseteq> set (confirmedLeaks c)"
proof (induction xs arbitrary: c opts leaks)
  case Nil
  show ?case by simp
next
  case (Cons x xs)
  obtain i p where x: "x = (i, p)" by (cases x) auto
  have del: "set (confirmedLeaks
               (setAlloc p (markValid (heap c p)) (c\<lparr>confirmedLeaks := AList.delete i (confirmedLeaks c)\<rparr>)))
             \<subseteq> set (confirmedLeaks c)"
    by (auto simp: setAlloc_def in_delete_iff)
  show ?case
    unfolding x
    using Cons.IH [of c opts leaks]
          Cons.IH [of c "opts @ [ReleaseOptions (heap c p)]"
                     "AList.update (Address (ReleaseOptions (heap c p))) p leaks"]
          subset_trans [OF Cons.IH [of "setAlloc p (markValid (heap c p))
                                         (c\<lparr>confirmedLeaks := AList.delete i (confirmedLeaks c)\<rparr>)"
                                       opts leaks] del]
    by (simp add: Let_def)
qed





















subsection \<open>releaseUnusedBlocks and the cache of blocks by node\<close>
















subsection \<open>The handle check of garbageCollectKnownLeaks\<close>













subsection \<open>Two confirmed leaks for one address\<close>










end
